theory Spec2Isabelle
  imports Main "HOL-Library.Word"
begin

section \<open>Data model of pkg/remote/sshclient.go\<close>

text \<open>
  The connection engine of \<^verbatim>\<open>sshclient.go\<close> is embedded function by function.
  Go's \<^verbatim>\<open>int32\<close> is a 32-bit word read as two's complement (\<open>sint\<close>), Go's
  \<^verbatim>\<open>int\<close> port number is an \<open>int\<close>, strings are \<open>string\<close>, slices are lists,
  a nil pointer is \<open>None\<close>. Every Go \<^verbatim>\<open>error\<close> is a value of the datatype
  \<open>error\<close>; a function returning \<^verbatim>\<open>(T, error)\<close> returns \<open>error + T\<close>.
\<close>

type_synonym int32 = "32 word"

definition SshProxyJumpMaxDepth :: int where
  "SshProxyJumpMaxDepth = 10"

definition MaxInt32 :: int32 where
  "MaxInt32 = 0x7FFFFFFF"

record SSHOpts =
  SSHHost :: string
  SSHUser :: string
  SSHPort :: int

text \<open>
  \<^verbatim>\<open>wshrpc.ConnKeywords\<close> is declared in package \<^verbatim>\<open>wshrpc\<close>, outside this file; the record has
  the fields that \<^verbatim>\<open>sshclient.go\<close> reads and writes, with the types it uses them at.
\<close>

record ConnKeywords =
  SshUser :: string
  SshHostName :: string
  SshPort :: string
  SshIdentityFile :: "string list"
  SshBatchMode :: bool
  SshPubkeyAuthentication :: bool
  SshPasswordAuthentication :: bool
  SshKbdInteractiveAuthentication :: bool
  SshPreferredAuthentications :: "string list"
  SshAddKeysToAgent :: bool
  SshIdentityAgent :: string
  SshProxyJump :: "string list"
  SshUserKnownHostsFile :: "string list"
  SshGlobalKnownHostsFile :: "string list"

text \<open>The zero value \<^verbatim>\<open>wshrpc.ConnKeywords{}\<close>.\<close>

definition emptyConnKeywords :: ConnKeywords where
  "emptyConnKeywords = \<lparr>SshUser = [], SshHostName = [], SshPort = [],
     SshIdentityFile = [], SshBatchMode = False, SshPubkeyAuthentication = False,
     SshPasswordAuthentication = False, SshKbdInteractiveAuthentication = False,
     SshPreferredAuthentications = [], SshAddKeysToAgent = False, SshIdentityAgent = [],
     SshProxyJump = [], SshUserKnownHostsFile = [], SshGlobalKnownHostsFile = []\<rparr>"

text \<open>An established \<^verbatim>\<open>*ssh.Client\<close>: the address it reached and the transport it went through.\<close>

datatype Client = Client string "Client option"

record PublicKey =
  keyType :: string
  keyMarshal :: string

record KnownKey =
  Key :: PublicKey
  Filename :: string
  Line :: int

record ConnectionDebugInfo =
  CurrentClient :: "Client option"
  NextOpts :: SSHOpts
  JumpNum :: int32

datatype fmtarg = ArgInt int | ArgStr string

text \<open>
  The error values the file creates or inspects: \<^verbatim>\<open>fmt.Errorf\<close> with its format and
  arguments (\<open>ErrorfErr\<close> when the argument is an error), the three library error types
  the code type-switches on, and the file's own \<^verbatim>\<open>UserInputCancelError\<close> and
  \<^verbatim>\<open>ConnectionError\<close>.
\<close>

datatype error =
    Errorf string "fmtarg list"
  | ErrorfErr string error
  | PathError string
  | KeyError "KnownKey list"
  | RevokedError
  | PassphraseMissingError
  | UserInputCancelError error
  | ConnectionError ConnectionDebugInfo error

section \<open>The interactive-input service and the outside world\<close>

text \<open>
  A \<^verbatim>\<open>context.Context\<close> is kept as the chain of its derivations:
  \<^verbatim>\<open>context.Background()\<close>, a cancellable child, a child with a timeout (seconds).
\<close>

datatype Context = Background | WithCancel Context | WithTimeout Context nat

text \<open>\<open>derivedFrom parent ctx\<close>: \<open>ctx\<close> is \<open>parent\<close> or one of its descendants, so that cancelling \<open>parent\<close> cancels \<open>ctx\<close>.\<close>

fun derivedFrom :: "Context \<Rightarrow> Context \<Rightarrow> bool" where
  "derivedFrom parent Background = (parent = Background)"
| "derivedFrom parent (WithCancel c) = (parent = WithCancel c \<or> derivedFrom parent c)"
| "derivedFrom parent (WithTimeout c t) = (parent = WithTimeout c t \<or> derivedFrom parent c)"

text \<open>Whether a context carries a deadline, its own or one of an ancestor.\<close>

fun hasTimeout :: "Context \<Rightarrow> bool" where
  "hasTimeout Background = False"
| "hasTimeout (WithCancel c) = hasTimeout c"
| "hasTimeout (WithTimeout c t) = True"

record UserInputRequest =
  ResponseType :: string
  QueryText :: string
  Title :: string
  Markdown :: bool
  PublicText :: bool

record UserInputResponse =
  Type :: string
  Text :: string
  Confirm :: bool

datatype PrivateKey = PrivateKey string

datatype Signer = Signer string

text \<open>What the human does with one prompt: an answer, or no answer (decline, timeout, cancelled context), which the service reports as an error.\<close>

datatype reply = Answer UserInputResponse | NoAnswer error

datatype event =
    EvReloadConfigs string
  | EvDialAgent string
  | EvDialTCP "Client option" string
  | EvHandshake string

text \<open>
  The world outside the process, threaded through every function that has an effect:
  the answers the human will give (in order), the prompts issued so far with the context
  each was issued under, the known-hosts files (path to content, the bytes of the file,
  \<open>None\<close> for a file that does not exist), the keys handed to the agent, the log, and the configuration and
  network operations performed.
\<close>

record world =
  replies :: "reply list"
  prompts :: "(Context \<times> UserInputRequest) list"
  files :: "string \<Rightarrow> string option"
  agentAdded :: "PrivateKey list"
  logs :: "(string \<times> string list) list"
  events :: "event list"

text \<open>
  Modelled from the spec: \<^verbatim>\<open>userinput.GetUserInput\<close> (package \<^verbatim>\<open>pkg/userinput\<close>) is
  defined outside \<^verbatim>\<open>sshclient.go\<close>. Per the interface of the interactive-input service,
  a request yields a response or an error; here the next scripted reply is consumed and
  the request is recorded with its context. With no reply left the request goes
  unanswered and ends in an error.
\<close>

definition GetUserInput :: "Context \<Rightarrow> UserInputRequest \<Rightarrow> world \<Rightarrow> (error + UserInputResponse) \<times> world" where
  "GetUserInput ctx request w =
    (case replies w of
       [] \<Rightarrow> (Inl (Errorf ''timed out waiting for user input'' []),
              w\<lparr>prompts := prompts w @ [(ctx, request)]\<rparr>)
     | r # rs \<Rightarrow> ((case r of Answer resp \<Rightarrow> Inr resp | NoAnswer err \<Rightarrow> Inl err),
              w\<lparr>replies := rs, prompts := prompts w @ [(ctx, request)]\<rparr>))"

text \<open>\<^verbatim>\<open>fmt.Sprintf\<close> for formats whose only verb is \<^verbatim>\<open>%s\<close>.\<close>

fun Sprintf :: "string \<Rightarrow> string list \<Rightarrow> string" where
  "Sprintf [] args = []"
| "Sprintf (c # d # cs) (a # as) =
     (if c = CHR ''%'' \<and> d = CHR ''s'' then a @ Sprintf cs as
      else c # Sprintf (d # cs) (a # as))"
| "Sprintf (c # cs) args = c # Sprintf cs args"

declare Sprintf.simps [simp del]

text \<open>
  Closures are data: the variables a Go closure captures, the mutable ones included.
  \<^verbatim>\<open>createPublicKeyCallback\<close> returns a closure over the two queues
  \<^verbatim>\<open>authSockSignersPtr\<close> and \<^verbatim>\<open>identityFilesPtr\<close>, the map \<^verbatim>\<open>existingKeys\<close> and its
  arguments; \<^verbatim>\<open>agentClient\<close> is the agent's socket path, \<open>None\<close> for nil.
\<close>

record PublicKeyCallback =
  pkConnCtx :: Context
  pkKeywords :: ConnKeywords
  existingKeys :: "string \<Rightarrow> string option"
  agentClient :: "string option"
  pkDebugInfo :: ConnectionDebugInfo
  authSockSigners :: "Signer list"
  identityFiles :: "string list"

text \<open>
  The closure \<^verbatim>\<open>waveHostKeyCallback\<close> of \<^verbatim>\<open>createHostKeyCallback\<close> captures the
  readable and the unreadable known-hosts files and the callback of the database that
  was loaded; it assigns \<^verbatim>\<open>knownHostsFiles\<close>.
\<close>

record HostKeyCallback =
  knownHostsFiles :: "string list"
  unreadableFiles :: "string list"
  basicCallback :: "string \<Rightarrow> string \<Rightarrow> PublicKey \<Rightarrow> error option"

datatype AuthMethod =
    RetryablePublicKeys PublicKeyCallback int
  | RetryableKeyboardInteractive Context string ConnectionDebugInfo int
  | RetryablePassword Context string ConnectionDebugInfo int

record ClientConfig =
  User :: string
  Auth :: "AuthMethod list"
  HostKeyCallback :: HostKeyCallback
  HostKeyAlgorithms :: "string list"

text \<open>
  Everything the file calls that lies outside it is a field of \<open>env\<close>: the operating
  system (\<^verbatim>\<open>user.Current\<close>, \<^verbatim>\<open>os.ReadFile\<close>, \<^verbatim>\<open>os.MkdirAll\<close>, \<^verbatim>\<open>os.OpenFile\<close>,
  writing and closing a file), other packages of the repository
  (\<^verbatim>\<open>wavebase.ExpandHomeDir\<close>, \<^verbatim>\<open>wconfig.ReadFullConfig().Connections\<close>,
  \<^verbatim>\<open>ParseOpts\<close>), the ssh, agent and known-hosts libraries, and the network.
  \<^verbatim>\<open>findSshConfigKeywords\<close> reads the ssh configuration through the \<^verbatim>\<open>ssh_config\<close>
  library and a shell; its result per host pattern is taken as given.
\<close>

record env =
  userCurrent :: "error + string"
  ExpandHomeDir :: "string \<Rightarrow> error + string"
  ReadFile :: "string \<Rightarrow> error + string"
  ParseRawPrivateKey :: "string \<Rightarrow> error + PrivateKey"
  ParseRawPrivateKeyWithPassphrase :: "string \<Rightarrow> string \<Rightarrow> error + PrivateKey"
  NewSignerFromKey :: "PrivateKey \<Rightarrow> error + Signer"
  GenerateKey :: "error + PrivateKey"
  MkdirAll :: "string \<Rightarrow> error option"
  OpenFile :: "string \<Rightarrow> error option"
  WriteString :: "string \<Rightarrow> string \<Rightarrow> error option"
  Close :: "string \<Rightarrow> error option"
  knownhostsNew :: "string list \<Rightarrow> (string \<Rightarrow> string option)
                      \<Rightarrow> error + (string \<Rightarrow> string \<Rightarrow> PublicKey \<Rightarrow> error option)"
  knownhostsAlgorithms :: "string list \<Rightarrow> (string \<Rightarrow> string option) \<Rightarrow> string \<Rightarrow> string list"
  knownhostsNormalize :: "string \<Rightarrow> string"
  knownhostsLine :: "string list \<Rightarrow> PublicKey \<Rightarrow> string"
  base64EncodeToString :: "string \<Rightarrow> string"
  findSshConfigKeywords :: "string \<Rightarrow> error + ConnKeywords"
  Connections :: "string \<Rightarrow> ConnKeywords option"
  ParseOpts :: "string \<Rightarrow> error + SSHOpts"
  agentDial :: "string \<Rightarrow> error option"
  agentSigners :: "string \<Rightarrow> Signer list"
  DialContext :: "Client option \<Rightarrow> string \<Rightarrow> error option"
  NewClientConn :: "string \<Rightarrow> ClientConfig \<Rightarrow> world \<Rightarrow> error option \<times> world"

section \<open>Authenticator: the public-key callback\<close>

text \<open>\<^verbatim>\<open>createDummySigner\<close>: a fresh RSA key turned into a signer.\<close>

definition createDummySigner :: "env \<Rightarrow> error + Signer list" where
  "createDummySigner env =
    (case GenerateKey env of
       Inl err \<Rightarrow> Inl err
     | Inr dummyKey \<Rightarrow>
        (case NewSignerFromKey env dummyKey of
           Inl err \<Rightarrow> Inl err
         | Inr dummySigner \<Rightarrow> Inr [dummySigner]))"

text \<open>
  The loop at the head of \<^verbatim>\<open>createPublicKeyCallback\<close>: a file that cannot be expanded
  or read is skipped, the others are cached in \<^verbatim>\<open>existingKeys\<close> and queued.
\<close>

fun readIdentityFiles ::
  "env \<Rightarrow> string list \<Rightarrow> (string \<Rightarrow> string option) \<Rightarrow> string list
     \<Rightarrow> (string \<Rightarrow> string option) \<times> string list" where
  "readIdentityFiles env [] existing queue = (existing, queue)"
| "readIdentityFiles env (identityFile # others) existing queue =
    (case ExpandHomeDir env identityFile of
       Inl err \<Rightarrow> readIdentityFiles env others existing queue
     | Inr filePath \<Rightarrow>
        (case ReadFile env filePath of
           Inl err \<Rightarrow> readIdentityFiles env others existing queue
         | Inr privateKey \<Rightarrow>
             readIdentityFiles env others (existing(identityFile \<mapsto> privateKey))
               (queue @ [identityFile])))"

definition createPublicKeyCallback ::
  "env \<Rightarrow> Context \<Rightarrow> ConnKeywords \<Rightarrow> Signer list \<Rightarrow> string option \<Rightarrow> ConnectionDebugInfo
     \<Rightarrow> PublicKeyCallback" where
  "createPublicKeyCallback env connCtx sshKeywords authSockSignersExt agent debugInfo =
    (case readIdentityFiles env (SshIdentityFile sshKeywords) Map.empty [] of
       (existing, queue) \<Rightarrow>
         \<lparr>pkConnCtx = connCtx, pkKeywords = sshKeywords, existingKeys = existing,
          agentClient = agent, pkDebugInfo = debugInfo,
          authSockSigners = authSockSignersExt, identityFiles = queue\<rparr>)"

text \<open>\<^verbatim>\<open>if sshKeywords.SshAddKeysToAgent && agentClient != nil { agentClient.Add(...) }\<close>\<close>

definition addKeyToAgent :: "PublicKeyCallback \<Rightarrow> PrivateKey \<Rightarrow> world \<Rightarrow> world" where
  "addKeyToAgent cb key w =
    (if SshAddKeysToAgent (pkKeywords cb) \<and> agentClient cb \<noteq> None
     then w\<lparr>agentAdded := agentAdded w @ [key]\<rparr> else w)"

text \<open>The \<^verbatim>\<open>request\<close> of the passphrase prompt.\<close>

definition passphraseRequest :: "string \<Rightarrow> UserInputRequest" where
  "passphraseRequest identityFile =
     \<lparr>ResponseType = ''text'',
      QueryText = Sprintf ''Enter passphrase for the SSH key: %s'' [identityFile],
      Title = ''Publickey Auth + Passphrase'',
      Markdown = False, PublicText = False\<rparr>"

text \<open>
  What the closure does with the identity file it has popped, given the cached bytes.
  When the unencrypted parse succeeds but no signer can be made of the key, the outer
  \<^verbatim>\<open>err\<close> is still nil (the inner one shadows it), the type assertion fails and the
  dummy signer is returned.
\<close>

definition offerIdentityFile ::
  "env \<Rightarrow> PublicKeyCallback \<Rightarrow> string \<Rightarrow> string \<Rightarrow> world \<Rightarrow> (error + Signer list) \<times> world" where
  "offerIdentityFile env cb identityFile privateKey w =
    (case ParseRawPrivateKey env privateKey of
       Inr unencryptedPrivateKey \<Rightarrow>
        (case NewSignerFromKey env unencryptedPrivateKey of
           Inr signer \<Rightarrow> (Inr [signer], addKeyToAgent cb unencryptedPrivateKey w)
         | Inl err \<Rightarrow> (createDummySigner env, w))
     | Inl err \<Rightarrow>
        (if err \<noteq> PassphraseMissingError then (createDummySigner env, w)
         else if SshBatchMode (pkKeywords cb) then (createDummySigner env, w)
         else
          (case GetUserInput (WithTimeout (pkConnCtx cb) 60) (passphraseRequest identityFile) w of
             (Inl err, w') \<Rightarrow>
               (Inl (ConnectionError (pkDebugInfo cb) (UserInputCancelError err)), w')
           | (Inr response, w') \<Rightarrow>
              (case ParseRawPrivateKeyWithPassphrase env privateKey (Text response) of
                 Inl err \<Rightarrow> (createDummySigner env, w')
               | Inr unencryptedPrivateKey \<Rightarrow>
                  (case NewSignerFromKey env unencryptedPrivateKey of
                     Inl err \<Rightarrow> (createDummySigner env, w')
                   | Inr signer \<Rightarrow>
                       (Inr [signer], addKeyToAgent cb unencryptedPrivateKey w'))))))"

text \<open>
  One invocation of the closure that \<^verbatim>\<open>createPublicKeyCallback\<close> returns: the result,
  the closure with its queues as the invocation leaves them, and the world.
\<close>

definition publicKeyCallback ::
  "env \<Rightarrow> PublicKeyCallback \<Rightarrow> world \<Rightarrow> (error + Signer list) \<times> PublicKeyCallback \<times> world" where
  "publicKeyCallback env cb w =
    (case authSockSigners cb of
       authSockSigner # rest \<Rightarrow> (Inr [authSockSigner], cb\<lparr>authSockSigners := rest\<rparr>, w)
     | [] \<Rightarrow>
        (case identityFiles cb of
           [] \<Rightarrow> (Inl (ConnectionError (pkDebugInfo cb)
                         (Errorf ''no identity files remaining'' [])), cb, w)
         | identityFile # rest \<Rightarrow>
            (case existingKeys cb identityFile of
               None \<Rightarrow>
                 (createDummySigner env, cb\<lparr>identityFiles := rest\<rparr>,
                  w\<lparr>logs := logs w @ [(''error with existingKeys, this should never happen'', [])]\<rparr>)
             | Some privateKey \<Rightarrow>
                (case offerIdentityFile env cb identityFile privateKey w of
                   (res, w') \<Rightarrow> (res, cb\<lparr>identityFiles := rest\<rparr>, w')))))"

text \<open>\<open>n\<close> successive invocations of the closure, whatever each returns: the results in order, and the closure and the world after the last.\<close>

fun publicKeyCallbacks ::
  "env \<Rightarrow> nat \<Rightarrow> PublicKeyCallback \<Rightarrow> world
     \<Rightarrow> (error + Signer list) list \<times> PublicKeyCallback \<times> world" where
  "publicKeyCallbacks env 0 cb w = ([], cb, w)"
| "publicKeyCallbacks env (Suc n) cb w =
    (case publicKeyCallback env cb w of
       (res, cb', w') \<Rightarrow>
         (case publicKeyCallbacks env n cb' w' of
            (results, cb'', w'') \<Rightarrow> (res # results, cb'', w'')))"




section \<open>Authenticator: the password and keyboard-interactive prompts\<close>

text \<open>The closure returned by \<^verbatim>\<open>createInteractivePasswordCallbackPrompt\<close>, applied to the world.\<close>

definition createInteractivePasswordCallbackPrompt ::
  "Context \<Rightarrow> string \<Rightarrow> ConnectionDebugInfo \<Rightarrow> world \<Rightarrow> (error + string) \<times> world" where
  "createInteractivePasswordCallbackPrompt connCtx remoteDisplayName debugInfo w =
    (case GetUserInput (WithTimeout connCtx 60)
            \<lparr>ResponseType = ''text'',
             QueryText = Sprintf
               (''Password Authentication requested from connection  \<newline>'' @
                ''%s\<newline>\<newline>'' @
                ''Password:'') [remoteDisplayName],
             Title = ''Password Authentication'',
             Markdown = True, PublicText = False\<rparr> w of
       (Inl err, w') \<Rightarrow> (Inl (ConnectionError debugInfo err), w')
     | (Inr response, w') \<Rightarrow> (Inr (Text response), w'))"

definition promptChallengeQuestion ::
  "Context \<Rightarrow> string \<Rightarrow> bool \<Rightarrow> string \<Rightarrow> world \<Rightarrow> (error + string) \<times> world" where
  "promptChallengeQuestion connCtx question echo remoteName w =
    (case GetUserInput (WithTimeout connCtx 60)
            \<lparr>ResponseType = ''text'',
             QueryText = Sprintf
               (''Keyboard Interactive Authentication requested from connection  \<newline>'' @
                ''%s\<newline>\<newline>'' @
                ''%s'') [remoteName, question],
             Title = ''Keyboard Interactive Authentication'',
             Markdown = True, PublicText = echo\<rparr> w of
       (Inl err, w') \<Rightarrow> (Inl err, w')
     | (Inr response, w') \<Rightarrow> (Inr (Text response), w'))"

text \<open>The loop \<^verbatim>\<open>for i, question := range questions\<close> of the keyboard-interactive challenge.\<close>

fun challengeLoop ::
  "Context \<Rightarrow> string \<Rightarrow> ConnectionDebugInfo \<Rightarrow> (string \<times> bool) list \<Rightarrow> string list \<Rightarrow> world
     \<Rightarrow> (error + string list) \<times> world" where
  "challengeLoop connCtx remoteName debugInfo [] answers w = (Inr answers, w)"
| "challengeLoop connCtx remoteName debugInfo ((question, echo) # rest) answers w =
    (case promptChallengeQuestion connCtx question echo remoteName w of
       (Inl err, w') \<Rightarrow> (Inl (ConnectionError debugInfo err), w')
     | (Inr answer, w') \<Rightarrow>
         challengeLoop connCtx remoteName debugInfo rest (answers @ [answer]) w')"

definition createInteractiveKbdInteractiveChallenge ::
  "Context \<Rightarrow> string \<Rightarrow> ConnectionDebugInfo \<Rightarrow> string \<Rightarrow> string \<Rightarrow> string list \<Rightarrow> bool list
     \<Rightarrow> world \<Rightarrow> (error + string list) \<times> world" where
  "createInteractiveKbdInteractiveChallenge connCtx remoteName debugInfo name instruction
      questions echos w =
    (if length questions \<noteq> length echos then
       (Inl (Errorf ''bad response from server: questions has len %d, echos has len %d''
               [ArgInt (int (length questions)), ArgInt (int (length echos))]), w)
     else challengeLoop connCtx remoteName debugInfo (zip questions echos) [] w)"

section \<open>Host-Trust Store: the host-key callback\<close>

text \<open>The directory part that \<^verbatim>\<open>filepath.Split\<close> returns: everything up to the last separator.\<close>

definition filepathSplitDir :: "string \<Rightarrow> string" where
  "filepathSplitDir path = rev (dropWhile (\<lambda>c. c \<noteq> CHR ''/'') (rev path))"

text \<open>\<^verbatim>\<open>strings.Join\<close>.\<close>

fun stringsJoin :: "string list \<Rightarrow> string \<Rightarrow> string" where
  "stringsJoin [] sep = []"
| "stringsJoin [x] sep = x"
| "stringsJoin (x # y # ys) sep = x @ sep @ stringsJoin (y # ys) sep"

text \<open>
  \<^verbatim>\<open>writeToKnownHosts(knownHostsFile, newLine, getUserVerification)\<close>. The file is
  opened (and created) before the user is asked; any failure to obtain a confirmation,
  and a response that does not confirm, is returned as a \<^verbatim>\<open>UserInputCancelError\<close>.
  The file is opened with \<^verbatim>\<open>O_APPEND\<close>: the bytes of \<^verbatim>\<open>newLine + "\n"\<close> are put
  after the bytes the file holds, whether or not these end in a newline.
\<close>

definition writeToKnownHosts ::
  "env \<Rightarrow> string \<Rightarrow> string \<Rightarrow> (world \<Rightarrow> (error + UserInputResponse) \<times> world) option
     \<Rightarrow> world \<Rightarrow> error option \<times> world" where
  "writeToKnownHosts env knownHostsFile newLine getUserVerification w =
    (let verification =
           (case getUserVerification of
              None \<Rightarrow> (\<lambda>w0. (Inr \<lparr>Type = ''confirm'', Text = [], Confirm = True\<rparr>, w0))
            | Some f \<Rightarrow> f)
     in case MkdirAll env (filepathSplitDir knownHostsFile) of
          Some err \<Rightarrow> (Some err, w)
        | None \<Rightarrow>
           (case OpenFile env knownHostsFile of
              Some err \<Rightarrow> (Some err, w)
            | None \<Rightarrow>
               (let w1 = (case files w knownHostsFile of
                            None \<Rightarrow> w\<lparr>files := (files w)(knownHostsFile \<mapsto> [])\<rparr>
                          | Some content \<Rightarrow> w)
                in case verification w1 of
                     (Inl err, w2) \<Rightarrow> (Some (UserInputCancelError err), w2)
                   | (Inr response, w2) \<Rightarrow>
                      (if \<not> Confirm response
                       then (Some (UserInputCancelError (Errorf ''canceled by the user'' [])), w2)
                       else
                        (case WriteString env knownHostsFile (newLine @ ''\<newline>'') of
                           Some err \<Rightarrow> (Some err, w2)
                         | None \<Rightarrow>
                            (Close env knownHostsFile,
                             w2\<lparr>files := (files w2)(knownHostsFile \<mapsto>
                                    (case files w2 knownHostsFile of
                                       None \<Rightarrow> newLine @ ''\<newline>''
                                     | Some content \<Rightarrow> content @ newLine @ ''\<newline>''))\<rparr>))))))"

text \<open>The \<^verbatim>\<open>request\<close> that \<^verbatim>\<open>createUnknownKeyVerifier\<close> builds.\<close>

definition unknownKeyRequest :: "env \<Rightarrow> string \<Rightarrow> string \<Rightarrow> string \<Rightarrow> PublicKey \<Rightarrow> UserInputRequest" where
  "unknownKeyRequest env knownHostsFile hostname remote key =
     \<lparr>ResponseType = ''confirm'',
      QueryText = Sprintf
        (''The authenticity of host '%s (%s)' can't be established '' @
         ''as it **does not exist in any checked known_hosts files**. '' @
         ''The host you are attempting to connect to provides this %s key:  \<newline>'' @
         ''%s.\<newline>\<newline>'' @
         ''**Would you like to continue connecting?** If so, the key will be permanently '' @
         ''added to the file %s '' @
         ''to protect from future man-in-the-middle attacks.'')
        [hostname, remote, keyType key, base64EncodeToString env (keyMarshal key),
         knownHostsFile],
      Title = ''Known Hosts Key Missing'',
      Markdown = True, PublicText = False\<rparr>"

text \<open>
  The closure returned by \<^verbatim>\<open>createUnknownKeyVerifier\<close>, applied to the world. Its
  context is made from \<^verbatim>\<open>context.Background()\<close>.
\<close>

definition createUnknownKeyVerifier ::
  "env \<Rightarrow> string \<Rightarrow> string \<Rightarrow> string \<Rightarrow> PublicKey \<Rightarrow> world \<Rightarrow> (error + UserInputResponse) \<times> world" where
  "createUnknownKeyVerifier env knownHostsFile hostname remote key w =
    (case GetUserInput (WithTimeout Background 60)
            (unknownKeyRequest env knownHostsFile hostname remote key) w of
       (Inl err, w') \<Rightarrow> (Inl err, w')
     | (Inr resp, w') \<Rightarrow>
         (if \<not> Confirm resp then (Inl (Errorf ''user selected no'' []), w')
          else (Inr resp, w')))"

text \<open>The \<^verbatim>\<open>request\<close> that \<^verbatim>\<open>createMissingKnownHostsVerifier\<close> builds.\<close>

definition missingKnownHostsRequest :: "env \<Rightarrow> string \<Rightarrow> string \<Rightarrow> string \<Rightarrow> PublicKey \<Rightarrow> UserInputRequest" where
  "missingKnownHostsRequest env knownHostsFile hostname remote key =
     \<lparr>ResponseType = ''confirm'',
      QueryText = Sprintf
        (''The authenticity of host '%s (%s)' can't be established '' @
         ''as **no known_hosts files could be found**. '' @
         ''The host you are attempting to connect to provides this %s key:  \<newline>'' @
         ''%s.\<newline>\<newline>'' @
         ''**Would you like to continue connecting?** If so:  \<newline>'' @
         ''- %s will be created  \<newline>'' @
         ''- the key will be added to %s\<newline>\<newline>'' @
         ''This will protect from future man-in-the-middle attacks.'')
        [hostname, remote, keyType key, base64EncodeToString env (keyMarshal key),
         knownHostsFile, knownHostsFile],
      Title = ''Known Hosts File Missing'',
      Markdown = True, PublicText = False\<rparr>"

definition createMissingKnownHostsVerifier ::
  "env \<Rightarrow> string \<Rightarrow> string \<Rightarrow> string \<Rightarrow> PublicKey \<Rightarrow> world \<Rightarrow> (error + UserInputResponse) \<times> world" where
  "createMissingKnownHostsVerifier env knownHostsFile hostname remote key w =
    (case GetUserInput (WithTimeout Background 60)
            (missingKnownHostsRequest env knownHostsFile hostname remote key) w of
       (Inl err, w') \<Rightarrow> (Inl err, w')
     | (Inr resp, w') \<Rightarrow>
         (if \<not> Confirm resp then (Inl (Errorf ''user selected no'' []), w')
          else (Inr resp, w')))"

text \<open>
  The two \<^verbatim>\<open>for _, filename := range ...\<close> loops of the unknown-host branch have the
  same body up to the verifier they create; \<open>writeLoop\<close> is that loop. It ends in
  \<open>Cancelled serr\<close> (the \<^verbatim>\<open>return serr\<close> inside the loop), in \<open>Written filename\<close>
  (\<^verbatim>\<open>err == nil\<close>, \<^verbatim>\<open>break\<close>), or runs out of files with the last error in \<^verbatim>\<open>err\<close>.
\<close>

datatype writeLoopResult = Cancelled error | Written string | NotWritten error

fun writeLoop ::
  "env \<Rightarrow> (string \<Rightarrow> world \<Rightarrow> (error + UserInputResponse) \<times> world) \<Rightarrow> string \<Rightarrow> string list
     \<Rightarrow> error \<Rightarrow> world \<Rightarrow> writeLoopResult \<times> world" where
  "writeLoop env verifier newLine [] err w = (NotWritten err, w)"
| "writeLoop env verifier newLine (filename # rest) err w =
    (case writeToKnownHosts env filename newLine (Some (verifier filename)) w of
       (None, w') \<Rightarrow> (Written filename, w')
     | (Some err', w') \<Rightarrow>
        (case err' of
           UserInputCancelError cause \<Rightarrow> (Cancelled err', w')
         | _ \<Rightarrow> writeLoop env verifier newLine rest err' w'))"

text \<open>
  One invocation of the closure \<^verbatim>\<open>waveHostKeyCallback\<close>: the error it returns
  (\<open>None\<close> for nil), the closure with \<^verbatim>\<open>knownHostsFiles\<close> as the invocation leaves
  it, and the world. \<open>remote\<close> is \<^verbatim>\<open>remote.String()\<close>.
\<close>

definition waveHostKeyCallback ::
  "env \<Rightarrow> HostKeyCallback \<Rightarrow> string \<Rightarrow> string \<Rightarrow> PublicKey \<Rightarrow> world
     \<Rightarrow> error option \<times> HostKeyCallback \<times> world" where
  "waveHostKeyCallback env cb hostname remote key w =
    (case basicCallback cb hostname remote key of
       None \<Rightarrow> (None, cb, w)
     | Some err \<Rightarrow>
        (case err of
           RevokedError \<Rightarrow> (Some err, cb, w)
         | KeyError want \<Rightarrow>
            (if want = [] then
               (let newLine = knownhostsLine env [knownhostsNormalize env hostname] key;
                    recheck = (\<lambda>cb' w'.
                       (case knownhostsNew env (knownHostsFiles cb') (files w') of
                          Inl err' \<Rightarrow> (Some err', cb', w')
                        | Inr updatedCallback \<Rightarrow> (updatedCallback hostname remote key, cb', w')))
                in case writeLoop env (\<lambda>filename. createUnknownKeyVerifier env filename hostname remote key)
                          newLine (knownHostsFiles cb)
                          (Errorf ''placeholder, should not be returned'' []) w of
                     (Cancelled serr, w1) \<Rightarrow> (Some serr, cb, w1)
                   | (Written filename, w1) \<Rightarrow> recheck cb w1
                   | (NotWritten err1, w1) \<Rightarrow>
                      (case writeLoop env
                              (\<lambda>filename. createMissingKnownHostsVerifier env filename hostname remote key)
                              newLine (unreadableFiles cb) err1 w1 of
                         (Cancelled serr, w2) \<Rightarrow> (Some serr, cb, w2)
                       | (Written filename, w2) \<Rightarrow> recheck (cb\<lparr>knownHostsFiles := [filename]\<rparr>) w2
                       | (NotWritten err2, w2) \<Rightarrow>
                           (Some (ErrorfErr ''unable to create new knownhost key: %e'' err2), cb, w2)))
             else
               (Some (Errorf ''remote host identification has changed'' []), cb,
                w\<lparr>logs := logs w @
                   [(''**WARNING: REMOTE HOST IDENTIFICATION HAS CHANGED!**\<newline>\<newline>'' @
                     ''If this is not expected, it is possible that someone could be trying to '' @
                     ''eavesdrop on you via a man-in-the-middle attack. '' @
                     ''Alternatively, the host you are connecting to may have changed its key. '' @
                     ''The %s key sent by the remote hist has the fingerprint:  \<newline>'' @
                     ''%s\<newline>\<newline>'' @
                     ''If you are sure this is correct, please update your known_hosts files to '' @
                     ''remove the lines with the offending before trying to connect again.  \<newline>'' @
                     ''**Known Hosts Files**  \<newline>'' @
                     ''%s\<newline>\<newline>'' @
                     ''**Offending Keys**  \<newline>'' @
                     ''%s'',
                     [keyType key, base64EncodeToString env (keyMarshal key),
                      stringsJoin (map (\<lambda>knownHostName. ''- '' @ knownHostName) (knownHostsFiles cb))
                        ''  \<newline>'',
                      stringsJoin (map (\<lambda>badKey. ''- '' @ base64EncodeToString env (keyMarshal (Key badKey))) want)
                        ''  \<newline>''])]\<rparr>))
         | _ \<Rightarrow> (Some err, cb, w)))"

text \<open>The loop that expands the home directory in each file name and drops the names that cannot be expanded.\<close>

fun expandKnownHostsFiles :: "env \<Rightarrow> string list \<Rightarrow> string list" where
  "expandKnownHostsFiles env [] = []"
| "expandKnownHostsFiles env (filename # rest) =
    (case ExpandHomeDir env filename of
       Inl err \<Rightarrow> expandKnownHostsFiles env rest
     | Inr filePath \<Rightarrow> filePath # expandKnownHostsFiles env rest)"

text \<open>
  The loop \<^verbatim>\<open>for basicCallback == nil && len(knownHostsFiles) > 0\<close>: a file the
  library cannot open is moved to \<^verbatim>\<open>unreadableFiles\<close> and the rest is tried again.
  When no file is left the callback answers every host with an empty \<^verbatim>\<open>KeyError\<close>.
\<close>

function loadKnownHosts ::
  "env \<Rightarrow> (string \<Rightarrow> string option) \<Rightarrow> string list \<Rightarrow> string list
     \<Rightarrow> error + HostKeyCallback \<times> (string \<Rightarrow> string list)" where
  "loadKnownHosts env fs known unreadable =
    (if known = [] then
       Inr (\<lparr>knownHostsFiles = known, unreadableFiles = unreadable,
             basicCallback = (\<lambda>hostname remote key. Some (KeyError []))\<rparr>,
            (\<lambda>hostWithPort. []))
     else
       (case knownhostsNew env known fs of
          Inr callback \<Rightarrow>
            Inr (\<lparr>knownHostsFiles = known, unreadableFiles = unreadable,
                  basicCallback = callback\<rparr>,
                 knownhostsAlgorithms env known fs)
        | Inl err \<Rightarrow>
           (case err of
              PathError badFile \<Rightarrow>
                (if length (filter (\<lambda>filename. filename \<noteq> badFile) known) \<ge> length known
                 then Inl (Errorf ''problem file (%s) doesn't exist. this should not be possible''
                             [ArgStr badFile])
                 else loadKnownHosts env fs (filter (\<lambda>filename. filename \<noteq> badFile) known)
                        (unreadable @ [badFile]))
            | _ \<Rightarrow> Inl (ErrorfErr ''known_hosts formatting error: %+v'' err))))"
  by pat_completeness auto
termination
  by (relation "measure (\<lambda>(env, fs, known, unreadable). length known)") auto

declare loadKnownHosts.simps [simp del]

text \<open>
  \<^verbatim>\<open>createHostKeyCallback(sshKeywords)\<close>: the verifier and the host-key-algorithm
  function, or the error. \<open>fs\<close> is the content of the file system when it is called.
\<close>

definition createHostKeyCallback ::
  "env \<Rightarrow> ConnKeywords \<Rightarrow> (string \<Rightarrow> string option)
     \<Rightarrow> error + HostKeyCallback \<times> (string \<Rightarrow> string list)" where
  "createHostKeyCallback env sshKeywords fs =
    (case userCurrent env of
       Inl err \<Rightarrow> Inl err
     | Inr username \<Rightarrow>
        (let unexpandedKnownHostsFiles =
               (if username = ''root'' then SshGlobalKnownHostsFile sshKeywords
                else SshUserKnownHostsFile sshKeywords @ SshGlobalKnownHostsFile sshKeywords);
             expanded = expandKnownHostsFiles env unexpandedKnownHostsFiles
         in if length expanded = 0
            then Inl (Errorf ''no known_hosts files provided by ssh. defaults are overridden'' [])
            else loadKnownHosts env fs expanded []))"

section \<open>Config Resolver: combineSshKeywords\<close>

text \<open>
  \<^verbatim>\<open>combineSshKeywords(userProvidedOpts, configKeywords, savedKeywords)\<close>. The only
  outside call is \<^verbatim>\<open>user.Current()\<close>, whose outcome is the parameter \<open>currentUser\<close>
  (the user name, or the error). \<open>savedKeywords\<close> is a pointer and may be nil.
\<close>

definition combineSshKeywords ::
  "(error + string) \<Rightarrow> ConnKeywords \<Rightarrow> ConnKeywords \<Rightarrow> ConnKeywords option \<Rightarrow> error + ConnKeywords" where
  "combineSshKeywords currentUser userProvidedOpts configKeywords savedKeywords =
    (case (if SshUser userProvidedOpts \<noteq> [] then Inr (SshUser userProvidedOpts)
           else if SshUser configKeywords \<noteq> [] then Inr (SshUser configKeywords)
           else (case currentUser of
                   Inl err \<Rightarrow> Inl (ErrorfErr ''failed to get user for ssh: %+v'' err)
                 | Inr username \<Rightarrow> Inr username)) of
       Inl err \<Rightarrow> Inl err
     | Inr u \<Rightarrow>
        Inr \<lparr>SshUser = u,
             SshHostName = (if SshHostName configKeywords \<noteq> [] then SshHostName configKeywords
                            else SshHostName userProvidedOpts),
             SshPort = (if SshPort userProvidedOpts \<noteq> ''0'' \<and> SshPort userProvidedOpts \<noteq> ''22''
                          then SshPort userProvidedOpts
                        else if SshPort configKeywords \<noteq> [] \<and> SshPort configKeywords \<noteq> ''22''
                          then SshPort configKeywords
                        else ''22''),
             SshIdentityFile =
               (case savedKeywords of None \<Rightarrow> [] | Some saved \<Rightarrow> SshIdentityFile saved)
                 @ SshIdentityFile userProvidedOpts @ SshIdentityFile configKeywords,
             SshBatchMode = SshBatchMode configKeywords,
             SshPubkeyAuthentication = SshPubkeyAuthentication configKeywords,
             SshPasswordAuthentication = SshPasswordAuthentication configKeywords,
             SshKbdInteractiveAuthentication = SshKbdInteractiveAuthentication configKeywords,
             SshPreferredAuthentications = SshPreferredAuthentications configKeywords,
             SshAddKeysToAgent = SshAddKeysToAgent configKeywords,
             SshIdentityAgent = SshIdentityAgent configKeywords,
             SshProxyJump = SshProxyJump configKeywords,
             SshUserKnownHostsFile = SshUserKnownHostsFile configKeywords,
             SshGlobalKnownHostsFile = SshGlobalKnownHostsFile configKeywords\<rparr>)"

section \<open>Tunnel Chainer and Connection Orchestrator: ConnectToClient\<close>

text \<open>\<^verbatim>\<open>fmt.Sprintf("%d", n)\<close> and \<^verbatim>\<open>fmt.Sprint(n)\<close> of an integer: its decimal digits.\<close>

function natToDecimal :: "nat \<Rightarrow> string" where
  "natToDecimal n =
    (if n < 10 then [''0123456789'' ! n]
     else natToDecimal (n div 10) @ [''0123456789'' ! (n mod 10)])"
  by pat_completeness auto
termination
  by (relation "measure id") auto

declare natToDecimal.simps [simp del]

definition intToDecimal :: "int \<Rightarrow> string" where
  "intToDecimal i = (if i < 0 then CHR ''-'' # natToDecimal (nat (- i)) else natToDecimal (nat i))"

text \<open>\<^verbatim>\<open>func (opts SSHOpts) String() string\<close>\<close>

definition SSHOpts_String :: "SSHOpts \<Rightarrow> string" where
  "SSHOpts_String opts =
    (if SSHUser opts \<noteq> [] then SSHUser opts @ ''@'' else []) @ SSHHost opts @
    (if SSHPort opts \<noteq> 0 then '':'' @ intToDecimal (SSHPort opts) else [])"

text \<open>
  \<^verbatim>\<open>if jumpNum < math.MaxInt32 { jumpNum += 1 }\<close> on \<^verbatim>\<open>int32\<close>: the comparison is
  signed, the addition is the machine's.
\<close>

definition jumpInc :: "int32 \<Rightarrow> int32" where
  "jumpInc jumpNum = (if jumpNum <s MaxInt32 then jumpNum + 1 else jumpNum)"

text \<open>
  The body of the loop over \<^verbatim>\<open>SshPreferredAuthentications\<close> in \<^verbatim>\<open>createClientConfig\<close>:
  the lookups in \<^verbatim>\<open>authMethodActiveMap\<close> and \<^verbatim>\<open>authMethodMap\<close> for one method name.
\<close>

definition authMethodsFor :: "ConnKeywords \<Rightarrow> AuthMethod \<Rightarrow> AuthMethod \<Rightarrow> AuthMethod \<Rightarrow> string \<Rightarrow> AuthMethod list" where
  "authMethodsFor sshKeywords publicKey keyboardInteractive password authMethodName =
    (if authMethodName = ''publickey'' then
       (if SshPubkeyAuthentication sshKeywords then [publicKey] else [])
     else if authMethodName = ''keyboard-interactive'' then
       (if SshKbdInteractiveAuthentication sshKeywords \<and> \<not> SshBatchMode sshKeywords
        then [keyboardInteractive] else [])
     else if authMethodName = ''password'' then
       (if SshPasswordAuthentication sshKeywords \<and> \<not> SshBatchMode sshKeywords
        then [password] else [])
     else [])"

text \<open>
  \<^verbatim>\<open>createClientConfig\<close>: the agent socket is dialled, the three retryable
  authentication methods are built (public key with a budget of
  \<^verbatim>\<open>len(SshIdentityFile) + len(authSockSigners)\<close>), and the host-key callback is created.
\<close>

definition createClientConfig ::
  "env \<Rightarrow> Context \<Rightarrow> ConnKeywords \<Rightarrow> ConnectionDebugInfo \<Rightarrow> world \<Rightarrow> (error + ClientConfig) \<times> world" where
  "createClientConfig env connCtx sshKeywords debugInfo w =
    (let remoteName = SshUser sshKeywords @ ''@'' @
           knownhostsNormalize env (SshHostName sshKeywords @ '':'' @ SshPort sshKeywords);
         w1 = w\<lparr>events := events w @ [EvDialAgent (SshIdentityAgent sshKeywords)]\<rparr>;
         agentErr = agentDial env (SshIdentityAgent sshKeywords);
         signers = (case agentErr of
                      None \<Rightarrow> agentSigners env (SshIdentityAgent sshKeywords)
                    | Some err \<Rightarrow> []);
         agent = (case agentErr of
                    None \<Rightarrow> Some (SshIdentityAgent sshKeywords)
                  | Some err \<Rightarrow> None);
         w2 = (case agentErr of
                 None \<Rightarrow> w1
               | Some err \<Rightarrow> w1\<lparr>logs := logs w1 @ [(''Failed to open Identity Agent Socket: %v'', [])]\<rparr>);
         authMethods = concat (map
           (authMethodsFor sshKeywords
              (RetryablePublicKeys
                 (createPublicKeyCallback env connCtx sshKeywords signers agent debugInfo)
                 (int (length (SshIdentityFile sshKeywords)) + int (length signers)))
              (RetryableKeyboardInteractive connCtx remoteName debugInfo 1)
              (RetryablePassword connCtx remoteName debugInfo 1))
           (SshPreferredAuthentications sshKeywords))
     in case createHostKeyCallback env sshKeywords (files w2) of
          Inl err \<Rightarrow> (Inl err, w2)
        | Inr (hostKeyCallback, hostKeyAlgorithms) \<Rightarrow>
            (Inr \<lparr>User = SshUser sshKeywords, Auth = authMethods,
                  HostKeyCallback = hostKeyCallback,
                  HostKeyAlgorithms =
                    hostKeyAlgorithms (SshHostName sshKeywords @ '':'' @ SshPort sshKeywords)\<rparr>,
             w2))"

text \<open>
  \<^verbatim>\<open>connectInternal\<close>: a TCP dial, direct or through \<^verbatim>\<open>currentClient\<close>, then the
  handshake. Both are recorded in \<open>events\<close>.
\<close>

definition connectInternal ::
  "env \<Rightarrow> Context \<Rightarrow> string \<Rightarrow> ClientConfig \<Rightarrow> Client option \<Rightarrow> world \<Rightarrow> (error + Client) \<times> world" where
  "connectInternal env ctx networkAddr clientConfig currentClient w =
    (let w1 = w\<lparr>events := events w @ [EvDialTCP currentClient networkAddr]\<rparr>
     in case DialContext env currentClient networkAddr of
          Some err \<Rightarrow> (Inl err, w1)
        | None \<Rightarrow>
           (case NewClientConn env networkAddr clientConfig
                   (w1\<lparr>events := events w1 @ [EvHandshake networkAddr]\<rparr>) of
              (Some err, w2) \<Rightarrow> (Inl err, w2)
            | (None, w2) \<Rightarrow> (Inr (Client networkAddr currentClient), w2)))"

text \<open>
  \<^verbatim>\<open>ConnectToClient\<close> and its loop over \<^verbatim>\<open>sshKeywords.SshProxyJump\<close>. The loop turns
  \<^verbatim>\<open>debugInfo.CurrentClient\<close> and \<^verbatim>\<open>jumpNum\<close> into what the recursive call returns;
  it ends early with \<open>Inl (jumpNum, err)\<close>, the values of the \<^verbatim>\<open>return nil, ..., err\<close>
  inside it. \<^verbatim>\<open>debugInfo\<close> is a pointer in the source; every error that holds it is
  returned at once, before any later assignment to \<^verbatim>\<open>debugInfo.CurrentClient\<close>, so the
  error carries the record as it is when the error is made. The assignments to
  \<^verbatim>\<open>connFlags\<close> are local here: the recursive calls pass a fresh
  \<^verbatim>\<open>&wshrpc.ConnKeywords{}\<close>.
\<close>

function ConnectToClient ::
  "env \<Rightarrow> Context \<Rightarrow> SSHOpts \<Rightarrow> Client option \<Rightarrow> int32 \<Rightarrow> ConnKeywords \<Rightarrow> world
     \<Rightarrow> (Client option \<times> int32 \<times> error option) \<times> world"
and proxyJumpLoop ::
  "env \<Rightarrow> Context \<Rightarrow> ConnectionDebugInfo \<Rightarrow> string list \<Rightarrow> int32 \<Rightarrow> world
     \<Rightarrow> (int32 \<times> error + Client option \<times> int32) \<times> world" where
  "ConnectToClient env connCtx opts currentClient jumpNum connFlags w =
    (let debugInfo = \<lparr>CurrentClient = currentClient, NextOpts = opts, JumpNum = jumpNum\<rparr>
     in if SshProxyJumpMaxDepth < sint jumpNum then
          ((None, jumpNum, Some (ConnectionError debugInfo
              (Errorf ''ProxyJump %d exceeds Wave's max depth of %d''
                 [ArgInt (sint jumpNum), ArgInt SshProxyJumpMaxDepth]))), w)
        else
         (let w1 = w\<lparr>events := events w @ [EvReloadConfigs (SSHHost opts)]\<rparr>
          in case findSshConfigKeywords env (SSHHost opts) of
               Inl err \<Rightarrow> ((None, JumpNum debugInfo, Some (ConnectionError debugInfo err)), w1)
             | Inr sshConfigKeywords \<Rightarrow>
                (case combineSshKeywords (userCurrent env)
                        (connFlags\<lparr>SshUser := SSHUser opts, SshHostName := SSHHost opts,
                                   SshPort := intToDecimal (SSHPort opts)\<rparr>)
                        sshConfigKeywords
                        (Some (case Connections env (SSHOpts_String opts) of
                                 None \<Rightarrow> emptyConnKeywords
                               | Some savedKeywords \<Rightarrow> savedKeywords)) of
                   Inl err \<Rightarrow> ((None, JumpNum debugInfo, Some (ConnectionError debugInfo err)), w1)
                 | Inr sshKeywords \<Rightarrow>
                    (case proxyJumpLoop env connCtx debugInfo (SshProxyJump sshKeywords) jumpNum w1 of
                       (Inl (jumpNum', err), w2) \<Rightarrow> ((None, jumpNum', Some err), w2)
                     | (Inr (proxyClient, jumpNum'), w2) \<Rightarrow>
                        (let debugInfo' = debugInfo\<lparr>CurrentClient := proxyClient\<rparr>
                         in case createClientConfig env connCtx sshKeywords debugInfo' w2 of
                           (Inl err, w3) \<Rightarrow>
                             ((None, JumpNum debugInfo', Some (ConnectionError debugInfo' err)), w3)
                         | (Inr clientConfig, w3) \<Rightarrow>
                            (case connectInternal env connCtx
                                    (SshHostName sshKeywords @ '':'' @ SshPort sshKeywords)
                                    clientConfig (CurrentClient debugInfo') w3 of
                               (Inl err, w4) \<Rightarrow>
                                 ((None, JumpNum debugInfo', Some (ConnectionError debugInfo' err)), w4)
                             | (Inr client, w4) \<Rightarrow>
                                 ((Some client, JumpNum debugInfo', None), w4)))))))"
| "proxyJumpLoop env connCtx debugInfo [] jumpNum w = (Inr (CurrentClient debugInfo, jumpNum), w)"
| "proxyJumpLoop env connCtx debugInfo (proxyName # rest) jumpNum w =
    (case ParseOpts env proxyName of
       Inl err \<Rightarrow> (Inl (JumpNum debugInfo, ConnectionError debugInfo err), w)
     | Inr proxyOpts \<Rightarrow>
        (case ConnectToClient env connCtx proxyOpts (CurrentClient debugInfo) (jumpInc jumpNum)
                emptyConnKeywords w of
           ((client, jumpNum', Some err), w') \<Rightarrow> (Inl (jumpNum', err), w')
         | ((client, jumpNum', None), w') \<Rightarrow>
             proxyJumpLoop env connCtx (debugInfo\<lparr>CurrentClient := client\<rparr>) rest jumpNum' w'))"
  by pat_completeness auto

text \<open>The increment never wraps: it adds one below \<^verbatim>\<open>math.MaxInt32\<close> and is the identity there.\<close>

lemma sint_jumpInc: "sint (jumpInc j) = (if sint j < 2147483647 then sint j + 1 else sint j)"
proof -
  have b: "- (2 ^ 31) \<le> sint j" "sint j < 2 ^ 31"
    using sint_ge [of j] sint_lt [of j] by simp_all
  show ?thesis
  proof (cases "sint j < 2147483647")
    case True
    then have "signed_take_bit 31 (sint j + 1) = sint j + 1"
      using b by (intro signed_take_bit_int_eq_self) simp_all
    then show ?thesis using True
      by (simp add: jumpInc_def MaxInt32_def word_sless_alt sint_word_ariths)
  next
    case False
    then show ?thesis
      by (simp add: jumpInc_def MaxInt32_def word_sless_alt)
  qed
qed

text \<open>Termination: the recursion is nested, a successful call returns the jump number it was given.\<close>

lemma ConnectToClient_dom_jumpNum:
  assumes "ConnectToClient_proxyJumpLoop_dom (Inl (env, connCtx, opts, cur, j, flags, w))"
    and "ConnectToClient env connCtx opts cur j flags w = ((c, j', None), w')"
  shows "j' = j"
  using assms
  by (auto simp: ConnectToClient.psimps Let_def split: if_splits sum.splits prod.splits)

termination ConnectToClient
proof (relation "measures
     [\<lambda>x. case x of Inl (env, connCtx, opts, currentClient, jumpNum, connFlags, w) \<Rightarrow> nat (12 - sint jumpNum)
               | Inr (env, connCtx, debugInfo, names, jumpNum, w) \<Rightarrow> nat (11 - sint jumpNum),
      \<lambda>x. case x of Inl (env, connCtx, opts, currentClient, jumpNum, connFlags, w) \<Rightarrow> 0
               | Inr (env, connCtx, debugInfo, names, jumpNum, w) \<Rightarrow> Suc (length names)]",
    goal_cases)
  case 1
  show ?case by simp
next
  case (2 env connCtx opts currentClient jumpNum connFlags w x xa b ba)
  then show ?case by (simp add: SshProxyJumpMaxDepth_def)
next
  case (3 env connCtx debugInfo proxyName rest jumpNum w b)
  show ?case by (simp add: sint_jumpInc)
next
  case (4 env connCtx debugInfo proxyName rest jumpNum w b x y xa ya xb yb)
  then have "ConnectToClient env connCtx b (CurrentClient debugInfo) (jumpInc jumpNum)
      emptyConnKeywords w = ((xa, xb, None), y)"
    by simp
  from ConnectToClient_dom_jumpNum [OF 4(6) this] have "xb = jumpInc jumpNum" .
  then show ?case by (auto simp: sint_jumpInc)
qed

declare ConnectToClient.simps [simp del]

section \<open>Notions used in the statements\<close>

text \<open>
  The keywords \<^verbatim>\<open>ConnectToClient\<close> resolves for a hop: \<^verbatim>\<open>findSshConfigKeywords\<close>
  for the host, then \<^verbatim>\<open>combineSshKeywords\<close> with the caller's flags (overwritten with
  the user, host and port of \<open>opts\<close>) and the saved connection of that name.
\<close>

definition hopKeywords :: "env \<Rightarrow> SSHOpts \<Rightarrow> ConnKeywords \<Rightarrow> error + ConnKeywords" where
  "hopKeywords env opts connFlags =
    (case findSshConfigKeywords env (SSHHost opts) of
       Inl err \<Rightarrow> Inl err
     | Inr sshConfigKeywords \<Rightarrow>
         combineSshKeywords (userCurrent env)
           (connFlags\<lparr>SshUser := SSHUser opts, SshHostName := SSHHost opts,
                      SshPort := intToDecimal (SSHPort opts)\<rparr>)
           sshConfigKeywords
           (Some (case Connections env (SSHOpts_String opts) of
                    None \<Rightarrow> emptyConnKeywords
                  | Some savedKeywords \<Rightarrow> savedKeywords)))"

text \<open>The error of the depth guard.\<close>

definition depthExceeded :: "int32 \<Rightarrow> error" where
  "depthExceeded jumpNum =
     Errorf ''ProxyJump %d exceeds Wave's max depth of %d''
       [ArgInt (sint jumpNum), ArgInt SshProxyJumpMaxDepth]"


text \<open>
  \<open>isHop env opts jumpNum connFlags hopOpts hopJumpNum\<close>: the call
  \<^verbatim>\<open>ConnectToClient(opts, jumpNum, connFlags)\<close> is, or may recursively make for one of its
  proxy-jump entries, the call for the hop \<open>hopOpts\<close> with jump number \<open>hopJumpNum\<close>.
  The entry at index \<open>i\<close> is called with the jump number incremented \<open>i + 1\<close> times.
\<close>

inductive isHop :: "env \<Rightarrow> SSHOpts \<Rightarrow> int32 \<Rightarrow> ConnKeywords \<Rightarrow> SSHOpts \<Rightarrow> int32 \<Rightarrow> bool"
  for env :: env where
  self: "isHop env opts jumpNum connFlags opts jumpNum"
| proxy: "\<lbrakk>\<not> SshProxyJumpMaxDepth < sint jumpNum;
           hopKeywords env opts connFlags = Inr sshKeywords;
           i < length (SshProxyJump sshKeywords);
           ParseOpts env (SshProxyJump sshKeywords ! i) = Inr proxyOpts;
           isHop env proxyOpts ((jumpInc ^^ Suc i) jumpNum) emptyConnKeywords hopOpts hopJumpNum\<rbrakk>
          \<Longrightarrow> isHop env opts jumpNum connFlags hopOpts hopJumpNum"

code_pred isHop .

text \<open>
  \<open>hopFails env connCtx opts currentClient jumpNum connFlags w debugInfo cause\<close>: in the
  call \<^verbatim>\<open>ConnectToClient(connCtx, opts, currentClient, jumpNum, connFlags)\<close> made in the
  world \<open>w\<close>, a step of the hop that \<open>debugInfo\<close> describes fails, and \<open>cause\<close> is the
  very error that step returns.

  The hop is the call itself in five cases: the depth guard trips, the keywords do not
  resolve, a proxy-jump entry does not parse after the entries before it have connected,
  the client configuration cannot be built, the dial or the handshake fails. Then
  \<open>debugInfo\<close> holds the options and the jump number of the call, and as current client
  the client the hop has connected through so far: the one the call was given as long
  as no proxy is connected, afterwards the one that the loop over the entries before the
  failing step has returned.

  Otherwise the entries before some proxy-jump entry have connected, that entry parses,
  and the step fails in the call made for it, through the client and with the counter
  those connections have left.
\<close>

inductive hopFails ::
  "env \<Rightarrow> Context \<Rightarrow> SSHOpts \<Rightarrow> Client option \<Rightarrow> int32 \<Rightarrow> ConnKeywords \<Rightarrow> world
     \<Rightarrow> ConnectionDebugInfo \<Rightarrow> error \<Rightarrow> bool"
  for env :: env and connCtx :: Context where
  tooDeep:
    "SshProxyJumpMaxDepth < sint jumpNum \<Longrightarrow>
     hopFails env connCtx opts currentClient jumpNum connFlags w
       \<lparr>CurrentClient = currentClient, NextOpts = opts, JumpNum = jumpNum\<rparr>
       (depthExceeded jumpNum)"
| unresolved:
    "\<lbrakk>\<not> SshProxyJumpMaxDepth < sint jumpNum;
      hopKeywords env opts connFlags = Inl cause\<rbrakk> \<Longrightarrow>
     hopFails env connCtx opts currentClient jumpNum connFlags w
       \<lparr>CurrentClient = currentClient, NextOpts = opts, JumpNum = jumpNum\<rparr> cause"
| unparsed:
    "\<lbrakk>\<not> SshProxyJumpMaxDepth < sint jumpNum;
      hopKeywords env opts connFlags = Inr sshKeywords;
      SshProxyJump sshKeywords = connected @ proxyName # rest;
      proxyJumpLoop env connCtx \<lparr>CurrentClient = currentClient, NextOpts = opts, JumpNum = jumpNum\<rparr>
          connected jumpNum (w\<lparr>events := events w @ [EvReloadConfigs (SSHHost opts)]\<rparr>)
        = (Inr (proxyClient, proxyNum), proxyWorld);
      ParseOpts env proxyName = Inl cause\<rbrakk> \<Longrightarrow>
     hopFails env connCtx opts currentClient jumpNum connFlags w
       \<lparr>CurrentClient = proxyClient, NextOpts = opts, JumpNum = jumpNum\<rparr> cause"
| throughProxy:
    "\<lbrakk>\<not> SshProxyJumpMaxDepth < sint jumpNum;
      hopKeywords env opts connFlags = Inr sshKeywords;
      SshProxyJump sshKeywords = connected @ proxyName # rest;
      proxyJumpLoop env connCtx \<lparr>CurrentClient = currentClient, NextOpts = opts, JumpNum = jumpNum\<rparr>
          connected jumpNum (w\<lparr>events := events w @ [EvReloadConfigs (SSHHost opts)]\<rparr>)
        = (Inr (proxyClient, proxyNum), proxyWorld);
      ParseOpts env proxyName = Inr proxyOpts;
      hopFails env connCtx proxyOpts proxyClient (jumpInc proxyNum) emptyConnKeywords proxyWorld
        debugInfo cause\<rbrakk> \<Longrightarrow>
     hopFails env connCtx opts currentClient jumpNum connFlags w debugInfo cause"
| unconfigured:
    "\<lbrakk>\<not> SshProxyJumpMaxDepth < sint jumpNum;
      hopKeywords env opts connFlags = Inr sshKeywords;
      proxyJumpLoop env connCtx \<lparr>CurrentClient = currentClient, NextOpts = opts, JumpNum = jumpNum\<rparr>
          (SshProxyJump sshKeywords) jumpNum (w\<lparr>events := events w @ [EvReloadConfigs (SSHHost opts)]\<rparr>)
        = (Inr (proxyClient, proxyNum), proxyWorld);
      createClientConfig env connCtx sshKeywords
          \<lparr>CurrentClient = proxyClient, NextOpts = opts, JumpNum = jumpNum\<rparr> proxyWorld
        = (Inl cause, configWorld)\<rbrakk> \<Longrightarrow>
     hopFails env connCtx opts currentClient jumpNum connFlags w
       \<lparr>CurrentClient = proxyClient, NextOpts = opts, JumpNum = jumpNum\<rparr> cause"
| unconnected:
    "\<lbrakk>\<not> SshProxyJumpMaxDepth < sint jumpNum;
      hopKeywords env opts connFlags = Inr sshKeywords;
      proxyJumpLoop env connCtx \<lparr>CurrentClient = currentClient, NextOpts = opts, JumpNum = jumpNum\<rparr>
          (SshProxyJump sshKeywords) jumpNum (w\<lparr>events := events w @ [EvReloadConfigs (SSHHost opts)]\<rparr>)
        = (Inr (proxyClient, proxyNum), proxyWorld);
      createClientConfig env connCtx sshKeywords
          \<lparr>CurrentClient = proxyClient, NextOpts = opts, JumpNum = jumpNum\<rparr> proxyWorld
        = (Inr clientConfig, configWorld);
      connectInternal env connCtx (SshHostName sshKeywords @ '':'' @ SshPort sshKeywords)
          clientConfig proxyClient configWorld
        = (Inl cause, dialWorld)\<rbrakk> \<Longrightarrow>
     hopFails env connCtx opts currentClient jumpNum connFlags w
       \<lparr>CurrentClient = proxyClient, NextOpts = opts, JumpNum = jumpNum\<rparr> cause"

text \<open>The type assertion \<^verbatim>\<open>err.(UserInputCancelError)\<close>.\<close>

definition isUserInputCancelError :: "error \<Rightarrow> bool" where
  "isUserInputCancelError err = (case err of UserInputCancelError cause \<Rightarrow> True | _ \<Rightarrow> False)"

text \<open>A known-hosts file that \<^verbatim>\<open>writeToKnownHosts\<close> cannot open for appending: creating its directory or opening it fails with an error of the operating system.\<close>

definition cannotOpen :: "env \<Rightarrow> string \<Rightarrow> bool" where
  "cannotOpen env filename =
     (case MkdirAll env (filepathSplitDir filename) of
        Some err \<Rightarrow> \<not> isUserInputCancelError err
      | None \<Rightarrow>
         (case OpenFile env filename of
            Some err \<Rightarrow> \<not> isUserInputCancelError err
          | None \<Rightarrow> False))"

text \<open>The file system once \<^verbatim>\<open>os.OpenFile\<close> with \<^verbatim>\<open>O_CREATE\<close> has opened \<open>filename\<close>.\<close>

definition opened :: "world \<Rightarrow> string \<Rightarrow> string \<Rightarrow> string option" where
  "opened w filename =
     (case files w filename of None \<Rightarrow> (files w)(filename \<mapsto> []) | Some content \<Rightarrow> files w)"

text \<open>The file system once the bytes of \<open>newLine\<close> and a newline were appended to \<open>filename\<close>.\<close>

definition appended :: "world \<Rightarrow> string \<Rightarrow> string \<Rightarrow> string \<Rightarrow> string option" where
  "appended w filename newLine =
     (files w)(filename \<mapsto>
        (case files w filename of None \<Rightarrow> [] | Some content \<Rightarrow> content) @ newLine @ ''\<newline>'')"

text \<open>
  The bytes of an identity file as the loop at the head of \<^verbatim>\<open>createPublicKeyCallback\<close>
  obtains them: the home directory expanded, the file read; \<open>None\<close> when either fails.
\<close>

definition identityKey :: "env \<Rightarrow> string \<Rightarrow> string option" where
  "identityKey env identityFile =
    (case ExpandHomeDir env identityFile of
       Inl err \<Rightarrow> None
     | Inr filePath \<Rightarrow>
        (case ReadFile env filePath of
           Inl err \<Rightarrow> None
         | Inr privateKey \<Rightarrow> Some privateKey))"

text \<open>
  The candidates of a connection attempt: the identity files of the configuration that
  can be read, in the order of the configuration, each with its bytes.
\<close>

definition candidates :: "env \<Rightarrow> ConnKeywords \<Rightarrow> (string \<times> string) list" where
  "candidates env sshKeywords =
     List.map_filter (\<lambda>identityFile. map_option (Pair identityFile) (identityKey env identityFile))
       (SshIdentityFile sshKeywords)"

text \<open>
  The reference the closure is compared with, after the words of the specification:
  the candidates are taken one at a time, in order, and each is offered once, with
  whatever interaction its passphrase needs; the results in order, and the world after
  the last.
\<close>

fun offerEachOnce ::
  "env \<Rightarrow> PublicKeyCallback \<Rightarrow> (string \<times> string) list \<Rightarrow> world
     \<Rightarrow> (error + Signer list) list \<times> world" where
  "offerEachOnce env cb [] w = ([], w)"
| "offerEachOnce env cb ((identityFile, privateKey) # later) w =
    (case offerIdentityFile env cb identityFile privateKey w of
       (res, w') \<Rightarrow>
         (case offerEachOnce env cb later w' of
            (results, w'') \<Rightarrow> (res # results, w'')))"

section \<open>A concrete environment\<close>

text \<open>
  An environment in which the functions can be run: user \<open>alice\<close>, three encrypted
  identity files whose passphrase is \<open>secret\<close>, a known-hosts library that splits the files
  at newlines and reads lines of the form \<open>host keytype key\<close>, a system-wide known-hosts file that cannot be opened
  for writing, no agent, a network that accepts every dial, and an ssh configuration in
  which host \<open>loop\<close> jumps through itself, \<open>target\<close> through \<open>jump\<close>, \<open>behind\<close>
  through \<open>broken\<close>, and the entry of \<open>broken\<close> does not parse.
\<close>

fun splitLines :: "string \<Rightarrow> string list" where
  "splitLines [] = []"
| "splitLines (c # cs) =
    (if c = CHR 0x0A then [] # splitLines cs
     else (case splitLines cs of [] \<Rightarrow> [[c]] | line # lines \<Rightarrow> (c # line) # lines))"

definition exampleKnownhostsNew ::
  "string list \<Rightarrow> (string \<Rightarrow> string option)
     \<Rightarrow> error + (string \<Rightarrow> string \<Rightarrow> PublicKey \<Rightarrow> error option)" where
  "exampleKnownhostsNew names fs =
    (case filter (\<lambda>name. fs name = None) names of
       missing # others \<Rightarrow> Inl (PathError missing)
     | [] \<Rightarrow>
        Inr (\<lambda>hostname remote key.
          (let entries = filter (\<lambda>line. take (length hostname + 1) line = hostname @ '' '')
                           (concat (map (\<lambda>name. case fs name of None \<Rightarrow> [] | Some content \<Rightarrow> splitLines content) names))
           in if entries = [] then Some (KeyError [])
              else if hostname @ '' '' @ keyType key @ '' '' @ keyMarshal key \<in> set entries then None
              else Some (KeyError (map (\<lambda>line. \<lparr>Key = \<lparr>keyType = [], keyMarshal = drop (length hostname + 1) line\<rparr>,
                                                 Filename = [], Line = 0\<rparr>) entries)))))"

definition exampleKeywords :: "string list \<Rightarrow> ConnKeywords" where
  "exampleKeywords proxyJump =
     emptyConnKeywords\<lparr>SshPubkeyAuthentication := True,
       SshPreferredAuthentications := [''publickey''],
       SshProxyJump := proxyJump,
       SshUserKnownHostsFile := [''/home/alice/.ssh/known_hosts'']\<rparr>"

definition exampleEnv :: env where
  "exampleEnv =
     \<lparr>userCurrent = Inr ''alice'',
      ExpandHomeDir = (\<lambda>path. Inr path),
      ReadFile = (\<lambda>path. if path = ''id_rsa'' then Inr ''encrypted-1''
                          else if path = ''id_ed25519'' then Inr ''encrypted-2''
                          else if path = ''id_ecdsa'' then Inr ''encrypted-3''
                          else Inl (PathError path)),
      ParseRawPrivateKey = (\<lambda>bytes. Inl PassphraseMissingError),
      ParseRawPrivateKeyWithPassphrase =
        (\<lambda>bytes passphrase. if passphrase = ''secret'' then Inr (PrivateKey bytes)
                             else Inl (Errorf ''x509: decryption password incorrect'' [])),
      NewSignerFromKey = (\<lambda>key. case key of PrivateKey bytes \<Rightarrow> Inr (Signer bytes)),
      GenerateKey = Inr (PrivateKey ''dummy''),
      MkdirAll = (\<lambda>path. None),
      OpenFile = (\<lambda>path. if path = ''/etc/ssh/ssh_known_hosts'' then Some (PathError path) else None),
      WriteString = (\<lambda>path text. None),
      Close = (\<lambda>path. None),
      knownhostsNew = exampleKnownhostsNew,
      knownhostsAlgorithms = (\<lambda>names fs hostWithPort. []),
      knownhostsNormalize = (\<lambda>hostname. hostname),
      knownhostsLine = (\<lambda>hostnames key. stringsJoin hostnames '','' @ '' '' @ keyType key @ '' '' @ keyMarshal key),
      base64EncodeToString = (\<lambda>bytes. bytes),
      findSshConfigKeywords =
        (\<lambda>hostPattern. if hostPattern = ''loop'' then Inr (exampleKeywords [''loop''])
                        else if hostPattern = ''target'' then Inr (exampleKeywords [''jump''])
                        else if hostPattern = ''behind'' then Inr (exampleKeywords [''broken''])
                        else if hostPattern = ''broken'' then Inl (Errorf ''ssh_config: bad entry'' [])
                        else Inr (exampleKeywords [])),
      Connections = (\<lambda>name. None),
      ParseOpts = (\<lambda>name. Inr \<lparr>SSHHost = name, SSHUser = [], SSHPort = 0\<rparr>),
      agentDial = (\<lambda>path. Some (Errorf ''dial unix: no such file'' [])),
      agentSigners = (\<lambda>path. []),
      DialContext = (\<lambda>client addr. None),
      NewClientConn = (\<lambda>addr config w. (None, w))\<rparr>"

definition emptyWorld :: world where
  "emptyWorld = \<lparr>replies = [], prompts = [], files = Map.empty, agentAdded = [], logs = [], events = []\<rparr>"

definition keyK1 :: PublicKey where "keyK1 = \<lparr>keyType = ''ssh-ed25519'', keyMarshal = ''K1''\<rparr>"
definition keyK2 :: PublicKey where "keyK2 = \<lparr>keyType = ''ssh-ed25519'', keyMarshal = ''K2''\<rparr>"

definition knownHostA :: "string \<Rightarrow> string option" where
  "knownHostA = [''/home/alice/.ssh/known_hosts'' \<mapsto> ''hostA ssh-ed25519 K1\<newline>'']"

definition twoFileVerifier :: HostKeyCallback where
  "twoFileVerifier =
     \<lparr>knownHostsFiles = [''/home/alice/.ssh/known_hosts'', ''/home/alice/.ssh/known_hosts2''],
      unreadableFiles = [],
      basicCallback = (\<lambda>hostname remote key. Some (KeyError []))\<rparr>"

definition declineThenConfirm :: world where
  "declineThenConfirm =
     emptyWorld\<lparr>replies := [Answer \<lparr>Type = ''confirm'', Text = [], Confirm = False\<rparr>,
                              Answer \<lparr>Type = ''confirm'', Text = [], Confirm = True\<rparr>]\<rparr>"


definition targetOpts :: SSHOpts where
  "targetOpts = \<lparr>SSHHost = ''target'', SSHUser = [], SSHPort = 0\<rparr>"

definition jumpOpts :: SSHOpts where
  "jumpOpts = \<lparr>SSHHost = ''jump'', SSHUser = [], SSHPort = 0\<rparr>"

definition cancellingEnv :: env where
  "cancellingEnv =
     exampleEnv\<lparr>NewClientConn :=
       (\<lambda>addr config w.
          (if addr = ''jump:22'' then Some (UserInputCancelError (Errorf ''user selected no'' []))
           else None, w))\<rparr>"

text \<open>An environment in which the handshake with the target itself, reached through the jump host, is cancelled.\<close>

definition lateCancellingEnv :: env where
  "lateCancellingEnv =
     exampleEnv\<lparr>NewClientConn :=
       (\<lambda>addr config w.
          (if addr = ''target:22'' then Some (UserInputCancelError (Errorf ''user selected no'' []))
           else None, w))\<rparr>"

definition skippingVerifier :: HostKeyCallback where
  "skippingVerifier =
     \<lparr>knownHostsFiles = [''/etc/ssh/ssh_known_hosts'', ''/home/alice/.ssh/known_hosts''],
      unreadableFiles = [],
      basicCallback = (\<lambda>hostname remote key. Some (KeyError []))\<rparr>"

definition confirmingWorld :: world where
  "confirmingWorld =
     emptyWorld\<lparr>files := [''/etc/ssh/ssh_known_hosts'' \<mapsto> [], ''/home/alice/.ssh/known_hosts'' \<mapsto> []],
                replies := [Answer \<lparr>Type = ''confirm'', Text = [], Confirm = True\<rparr>]\<rparr>"

definition singleFileVerifier :: HostKeyCallback where
  "singleFileVerifier =
     \<lparr>knownHostsFiles = [''/home/alice/.ssh/known_hosts''],
      unreadableFiles = [],
      basicCallback = (\<lambda>hostname remote key. Some (KeyError []))\<rparr>"

text \<open>A known-hosts file whose last line has no final newline.\<close>

definition unterminatedWorld :: world where
  "unterminatedWorld =
     emptyWorld\<lparr>files := [''/home/alice/.ssh/known_hosts'' \<mapsto> ''hostA ssh-ed25519 K1''],
                replies := [Answer \<lparr>Type = ''confirm'', Text = [], Confirm = True\<rparr>]\<rparr>"

text \<open>An environment in which nothing can be written to the first known-hosts file of the user.\<close>

definition fullDiskEnv :: env where
  "fullDiskEnv =
     exampleEnv\<lparr>WriteString :=
       (\<lambda>path text. if path = ''/home/alice/.ssh/known_hosts''
                     then Some (Errorf ''write: no space left on device'' []) else None)\<rparr>"

definition confirmTwice :: world where
  "confirmTwice =
     emptyWorld\<lparr>replies := [Answer \<lparr>Type = ''confirm'', Text = [], Confirm = True\<rparr>,
                              Answer \<lparr>Type = ''confirm'', Text = [], Confirm = True\<rparr>]\<rparr>"

definition exampleDebugInfo :: ConnectionDebugInfo where
  "exampleDebugInfo = \<lparr>CurrentClient = None, NextOpts = targetOpts, JumpNum = 0\<rparr>"

definition threeKeys :: ConnKeywords where
  "threeKeys = (exampleKeywords [])\<lparr>SshIdentityFile := [''id_rsa'', ''id_ed25519'', ''id_ecdsa'']\<rparr>"

definition wrongThenSilent :: world where
  "wrongThenSilent =
     emptyWorld\<lparr>files := [''/home/alice/.ssh/known_hosts'' \<mapsto> []],
                replies := [Answer \<lparr>Type = ''text'', Text = ''guess'', Confirm = False\<rparr>,
                            NoAnswer (Errorf ''context canceled'' [])]\<rparr>"


definition agentCallback :: PublicKeyCallback where
  "agentCallback =
     createPublicKeyCallback exampleEnv (WithCancel Background) threeKeys
       [Signer ''agent-1'', Signer ''agent-2''] (Some ''/run/agent.sock'') exampleDebugInfo"

definition rightThenWrong :: world where
  "rightThenWrong =
     emptyWorld\<lparr>replies := [Answer \<lparr>Type = ''text'', Text = ''secret'', Confirm = False\<rparr>,
                              Answer \<lparr>Type = ''text'', Text = ''guess'', Confirm = False\<rparr>]\<rparr>"




lemmas example_defs =
  exampleEnv_def exampleKeywords_def emptyConnKeywords_def emptyWorld_def exampleKnownhostsNew_def

section \<open>Theorems\<close>

text \<open>
  C4. For every configuration merge performed by combineSshKeywords (every call that
  returns keywords), the effective port is the caller-supplied port when that is neither
  the unset sentinel "0" nor the default "22"; otherwise it is the config-file port when
  that is set (non-empty) and not "22"; otherwise it is "22". In particular a caller port
  of "0" or "22" never overrides a non-default config-file port.
\<close>

theorem combineSshKeywords_port:
  assumes "combineSshKeywords currentUser caller config saved = Inr kw"
  shows "SshPort kw =
           (if SshPort caller \<noteq> ''0'' \<and> SshPort caller \<noteq> ''22'' then SshPort caller
            else if SshPort config \<noteq> [] \<and> SshPort config \<noteq> ''22'' then SshPort config
            else ''22'')
         \<and> ((SshPort caller = ''0'' \<or> SshPort caller = ''22'')
              \<and> SshPort config \<noteq> [] \<and> SshPort config \<noteq> ''22''
            \<longrightarrow> SshPort kw = SshPort config)"
  using assms
  by (auto simp: combineSshKeywords_def split: if_splits sum.splits)

theorem combineSshKeywords_port_witness:
  "combineSshKeywords (Inr ''alice'')
      (emptyConnKeywords\<lparr>SshHostName := ''example.org'', SshPort := ''0''\<rparr>)
      (emptyConnKeywords\<lparr>SshPort := ''2222''\<rparr>) None
     = Inr (emptyConnKeywords\<lparr>SshUser := ''alice'', SshHostName := ''example.org'',
                               SshPort := ''2222''\<rparr>)
   \<and> SshPort (emptyConnKeywords\<lparr>SshUser := ''alice'', SshHostName := ''example.org'',
                               SshPort := ''2222''\<rparr>) = ''2222''"
proof -
  have run: "combineSshKeywords (Inr ''alice'')
      (emptyConnKeywords\<lparr>SshHostName := ''example.org'', SshPort := ''0''\<rparr>)
      (emptyConnKeywords\<lparr>SshPort := ''2222''\<rparr>) None
     = Inr (emptyConnKeywords\<lparr>SshUser := ''alice'', SshHostName := ''example.org'',
                               SshPort := ''2222''\<rparr>)"
    by (simp add: combineSshKeywords_def emptyConnKeywords_def)
  from combineSshKeywords_port [OF run] run show ?thesis
    by (simp add: emptyConnKeywords_def)
qed

text \<open>
  C1. A changed host key is fatal and never prompts. The known-hosts library reports a
  host that is in the store with other keys than the one presented as a \<^verbatim>\<open>KeyError\<close>
  whose \<^verbatim>\<open>Want\<close> lists the known keys (an empty \<^verbatim>\<open>Want\<close> is an unknown host).
  For every verifier and every such answer of the store lookup, the callback returns the
  error "remote host identification has changed", leaves the verifier as it was, and
  issues no prompt: the prompts, the remaining replies and the known-hosts files are
  unchanged (only the log grows).
\<close>

theorem changed_host_key_is_fatal:
  assumes "basicCallback cb hostname remote key = Some (KeyError want)" and "want \<noteq> []"
  shows "\<exists>w'. waveHostKeyCallback env cb hostname remote key w
            = (Some (Errorf ''remote host identification has changed'' []), cb, w')
          \<and> prompts w' = prompts w \<and> replies w' = replies w \<and> files w' = files w"
  using assms by (simp add: waveHostKeyCallback_def)

theorem changed_host_key_is_fatal_witness:
  "case createHostKeyCallback exampleEnv (exampleKeywords []) knownHostA of
     Inl err \<Rightarrow> False
   | Inr (cb, algorithms) \<Rightarrow>
       basicCallback cb ''hostA'' ''10.0.0.1:22'' keyK2
         = Some (KeyError [\<lparr>Key = \<lparr>keyType = [], keyMarshal = ''ssh-ed25519 K1''\<rparr>, Filename = [], Line = 0\<rparr>])
     \<and> fst (waveHostKeyCallback exampleEnv cb ''hostA'' ''10.0.0.1:22'' keyK2
              (emptyWorld\<lparr>files := knownHostA, replies := [Answer \<lparr>Type = ''confirm'', Text = [], Confirm = True\<rparr>]\<rparr>))
         = Some (Errorf ''remote host identification has changed'' [])
     \<and> prompts (snd (snd (waveHostKeyCallback exampleEnv cb ''hostA'' ''10.0.0.1:22'' keyK2
              (emptyWorld\<lparr>files := knownHostA, replies := [Answer \<lparr>Type = ''confirm'', Text = [], Confirm = True\<rparr>]\<rparr>)))) = []"
proof -
  obtain cb algorithms where
    made: "createHostKeyCallback exampleEnv (exampleKeywords []) knownHostA = Inr (cb, algorithms)"
    by (simp add: createHostKeyCallback_def exampleEnv_def exampleKeywords_def emptyConnKeywords_def
        loadKnownHosts.simps knownHostA_def exampleKnownhostsNew_def)
  have mismatch: "basicCallback cb ''hostA'' ''10.0.0.1:22'' keyK2
      = Some (KeyError [\<lparr>Key = \<lparr>keyType = [], keyMarshal = ''ssh-ed25519 K1''\<rparr>, Filename = [], Line = 0\<rparr>])"
    using made
    by (auto simp: createHostKeyCallback_def exampleEnv_def exampleKeywords_def emptyConnKeywords_def
        loadKnownHosts.simps knownHostA_def exampleKnownhostsNew_def keyK2_def)
  let ?w = "emptyWorld\<lparr>files := knownHostA, replies := [Answer \<lparr>Type = ''confirm'', Text = [], Confirm = True\<rparr>]\<rparr>"
  from changed_host_key_is_fatal [OF mismatch, of exampleEnv ?w]
  obtain w' where "waveHostKeyCallback exampleEnv cb ''hostA'' ''10.0.0.1:22'' keyK2 ?w
            = (Some (Errorf ''remote host identification has changed'' []), cb, w')"
     and "prompts w' = prompts ?w"
    by auto
  with made mismatch show ?thesis
    by (simp add: emptyWorld_def)
qed

text \<open>
  C9. When the list of known-hosts files is empty after home-directory expansion
  (the global files alone for user root, the user files followed by the global files
  otherwise), \<^verbatim>\<open>createHostKeyCallback\<close> returns an error and no verifier: the error
  of \<^verbatim>\<open>user.Current\<close> if that fails, the error "no known_hosts files provided by ssh"
  otherwise.
\<close>

theorem no_known_hosts_files_is_an_error:
  assumes "\<And>username. userCurrent env = Inr username \<Longrightarrow>
             expandKnownHostsFiles env
               (if username = ''root'' then SshGlobalKnownHostsFile sshKeywords
                else SshUserKnownHostsFile sshKeywords @ SshGlobalKnownHostsFile sshKeywords) = []"
  shows "createHostKeyCallback env sshKeywords fs =
           Inl (case userCurrent env of
                  Inl err \<Rightarrow> err
                | Inr username \<Rightarrow>
                    Errorf ''no known_hosts files provided by ssh. defaults are overridden'' [])"
proof (cases "userCurrent env")
  case (Inl err)
  then show ?thesis by (simp add: createHostKeyCallback_def)
next
  case (Inr username)
  from assms [OF this] Inr show ?thesis
    by (simp add: createHostKeyCallback_def Let_def)
qed

theorem no_known_hosts_files_is_an_error_witness:
  "expandKnownHostsFiles exampleEnv
      (SshUserKnownHostsFile emptyConnKeywords @ SshGlobalKnownHostsFile emptyConnKeywords) = []
   \<and> createHostKeyCallback exampleEnv emptyConnKeywords knownHostA =
       Inl (Errorf ''no known_hosts files provided by ssh. defaults are overridden'' [])"
proof -
  have none: "\<And>username. userCurrent exampleEnv = Inr username \<Longrightarrow>
             expandKnownHostsFiles exampleEnv
               (if username = ''root'' then SshGlobalKnownHostsFile emptyConnKeywords
                else SshUserKnownHostsFile emptyConnKeywords @ SshGlobalKnownHostsFile emptyConnKeywords) = []"
    by (simp add: emptyConnKeywords_def)
  from no_known_hosts_files_is_an_error [of exampleEnv emptyConnKeywords knownHostA, OF none]
  show ?thesis
    by (simp add: emptyConnKeywords_def exampleEnv_def)
qed

text \<open>Lemmas on \<^verbatim>\<open>writeToKnownHosts\<close> and the loop over the files.\<close>

lemma writeToKnownHosts_cannotOpen:
  assumes "cannotOpen env filename"
  shows "\<exists>err. writeToKnownHosts env filename newLine verification w = (Some err, w)
           \<and> \<not> isUserInputCancelError err"
  using assms
  by (auto simp: cannotOpen_def writeToKnownHosts_def split: option.splits)

lemma writeLoop_skip:
  assumes "\<forall>f \<in> set skipped. cannotOpen env f"
  shows "\<exists>err'. writeLoop env verifier newLine (skipped @ others) err w
                 = writeLoop env verifier newLine others err' w"
  using assms
proof (induction skipped arbitrary: err)
  case Nil
  then show ?case by auto
next
  case (Cons f skipped)
  then have "cannotOpen env f" by simp
  from writeToKnownHosts_cannotOpen [OF this, of newLine "Some (verifier f)" w]
  obtain e where e: "writeToKnownHosts env f newLine (Some (verifier f)) w = (Some e, w)"
    and ne: "\<not> isUserInputCancelError e" by blast
  from Cons have "\<forall>f \<in> set skipped. cannotOpen env f" by simp
  from Cons.IH [OF this, of e] obtain err' where
    "writeLoop env verifier newLine (skipped @ others) e w = writeLoop env verifier newLine others err' w"
    by blast
  with e ne show ?case
    by (auto simp: isUserInputCancelError_def split: error.splits)
qed

lemma writeToKnownHosts_noAnswer:
  assumes "MkdirAll env (filepathSplitDir filename) = None" "OpenFile env filename = None"
    and "replies w = NoAnswer cause # later"
  shows "writeToKnownHosts env filename newLine
            (Some (createUnknownKeyVerifier env filename hostname remote key)) w
         = (Some (UserInputCancelError cause),
            w\<lparr>files := opened w filename, replies := later,
              prompts := prompts w @ [(WithTimeout Background 60,
                 unknownKeyRequest env filename hostname remote key)]\<rparr>)"
  using assms
  by (auto simp: writeToKnownHosts_def createUnknownKeyVerifier_def GetUserInput_def opened_def
      split: option.splits)

lemma writeToKnownHosts_declined:
  assumes "MkdirAll env (filepathSplitDir filename) = None" "OpenFile env filename = None"
    and "replies w = Answer resp # later" "\<not> Confirm resp"
  shows "writeToKnownHosts env filename newLine
            (Some (createUnknownKeyVerifier env filename hostname remote key)) w
         = (Some (UserInputCancelError (Errorf ''user selected no'' [])),
            w\<lparr>files := opened w filename, replies := later,
              prompts := prompts w @ [(WithTimeout Background 60,
                 unknownKeyRequest env filename hostname remote key)]\<rparr>)"
  using assms
  by (auto simp: writeToKnownHosts_def createUnknownKeyVerifier_def GetUserInput_def opened_def
      split: option.splits)

lemma writeToKnownHosts_confirmed:
  assumes "MkdirAll env (filepathSplitDir filename) = None" "OpenFile env filename = None"
    and "replies w = Answer resp # later" "Confirm resp"
    and "WriteString env filename (newLine @ ''\<newline>'') = None"
  shows "writeToKnownHosts env filename newLine
            (Some (createUnknownKeyVerifier env filename hostname remote key)) w
         = (Close env filename,
            w\<lparr>files := appended w filename newLine,
              replies := later,
              prompts := prompts w @ [(WithTimeout Background 60,
                 unknownKeyRequest env filename hostname remote key)]\<rparr>)"
  using assms
  by (auto simp: writeToKnownHosts_def createUnknownKeyVerifier_def GetUserInput_def appended_def
      split: option.splits)

lemma writeToKnownHosts_notWritten:
  assumes "MkdirAll env (filepathSplitDir filename) = None" "OpenFile env filename = None"
    and "replies w = Answer resp # later" "Confirm resp"
    and "WriteString env filename (newLine @ ''\<newline>'') = Some werr"
  shows "writeToKnownHosts env filename newLine
            (Some (createUnknownKeyVerifier env filename hostname remote key)) w
         = (Some werr,
            w\<lparr>files := opened w filename, replies := later,
              prompts := prompts w @ [(WithTimeout Background 60,
                 unknownKeyRequest env filename hostname remote key)]\<rparr>)"
  using assms
  by (auto simp: writeToKnownHosts_def createUnknownKeyVerifier_def GetUserInput_def opened_def
      split: option.splits)

lemma writeLoop_step:
  assumes "writeToKnownHosts env filename newLine (Some (verifier filename)) w = (Some e, w')"
  shows "writeLoop env verifier newLine (filename # rest) err w
           = (if isUserInputCancelError e then (Cancelled e, w')
              else writeLoop env verifier newLine rest e w')"
  using assms
  by (auto simp: isUserInputCancelError_def split: error.splits)

text \<open>
  C3, as the code has it. The host is unknown to every readable file and the verifier
  walks these files in order. A file that cannot be opened for appending is passed over
  without a prompt. At the first file that can be opened the user is asked once:
  when there is no answer (cancellation, timeout) the verification ends at once with a
  \<^verbatim>\<open>UserInputCancelError\<close> holding the cause; when the user declines it ends at once
  with a \<^verbatim>\<open>UserInputCancelError\<close> as well ("user selected no"); in both cases
  exactly one prompt was issued and no later file was touched. When the user confirms,
  the bytes of the new line and a newline are written at the end of that file; when the
  write and the close succeed the walk stops there, one prompt was issued, and the result
  is that of the final lookup in the updated files. When the write fails (the file is
  then as opening left it) or the close fails (the bytes are then in the file), the
  error ends the verification if it is a \<^verbatim>\<open>UserInputCancelError\<close>, and otherwise the
  walk goes on with the files after this one, from the state the prompt has left, as it
  would have been started on them with this error as the last one: the next file that
  can be opened is prompted for in turn.
\<close>

theorem unknown_host_prompt_outcomes:
  assumes unknown: "basicCallback cb hostname remote key = Some (KeyError [])"
    and order: "knownHostsFiles cb = skipped @ filename # rest"
    and skip: "\<forall>f \<in> set skipped. cannotOpen env f"
    and opens: "MkdirAll env (filepathSplitDir filename) = None" "OpenFile env filename = None"
    and human: "replies w = reply # later"
  shows "let newLine = knownhostsLine env [knownhostsNormalize env hostname] key;
             verifier = (\<lambda>filename. createUnknownKeyVerifier env filename hostname remote key);
             asked = prompts w @ [(WithTimeout Background 60,
                        unknownKeyRequest env filename hostname remote key)];
             unwritten = w\<lparr>files := opened w filename, replies := later, prompts := asked\<rparr>;
             written = w\<lparr>files := appended w filename newLine, replies := later, prompts := asked\<rparr>;
             walk = writeLoop env verifier newLine (knownHostsFiles cb)
                      (Errorf ''placeholder, should not be returned'' []) w
         in case reply of
           NoAnswer cause \<Rightarrow>
             waveHostKeyCallback env cb hostname remote key w
               = (Some (UserInputCancelError cause), cb, unwritten)
         | Answer resp \<Rightarrow>
             if \<not> Confirm resp then
               waveHostKeyCallback env cb hostname remote key w
                 = (Some (UserInputCancelError (Errorf ''user selected no'' [])), cb, unwritten)
             else
               (case WriteString env filename (newLine @ ''\<newline>'') of
                  Some werr \<Rightarrow>
                    if isUserInputCancelError werr then
                      waveHostKeyCallback env cb hostname remote key w = (Some werr, cb, unwritten)
                    else walk = writeLoop env verifier newLine rest werr unwritten
                | None \<Rightarrow>
                   (case Close env filename of
                      Some cerr \<Rightarrow>
                        if isUserInputCancelError cerr then
                          waveHostKeyCallback env cb hostname remote key w = (Some cerr, cb, written)
                        else walk = writeLoop env verifier newLine rest cerr written
                    | None \<Rightarrow>
                        waveHostKeyCallback env cb hostname remote key w
                          = ((case knownhostsNew env (knownHostsFiles cb) (files written) of
                                Inl err \<Rightarrow> Some err
                              | Inr updatedCallback \<Rightarrow> updatedCallback hostname remote key),
                             cb, written)))"
proof -
  let ?newLine = "knownhostsLine env [knownhostsNormalize env hostname] key"
  let ?verifier = "\<lambda>filename. createUnknownKeyVerifier env filename hostname remote key"
  let ?placeholder = "Errorf ''placeholder, should not be returned'' []"
  let ?asked = "prompts w @ [(WithTimeout Background 60,
                        unknownKeyRequest env filename hostname remote key)]"
  let ?unwritten = "w\<lparr>files := opened w filename, replies := later, prompts := ?asked\<rparr>"
  let ?written = "w\<lparr>files := appended w filename ?newLine, replies := later, prompts := ?asked\<rparr>"
  from writeLoop_skip [OF skip, of ?verifier ?newLine "filename # rest" ?placeholder w]
  obtain err' where loop: "writeLoop env ?verifier ?newLine (knownHostsFiles cb) ?placeholder w
      = writeLoop env ?verifier ?newLine (filename # rest) err' w"
    using order by auto
  show ?thesis
  proof (cases reply)
    case (NoAnswer cause)
    with human have "replies w = NoAnswer cause # later" by simp
    from writeToKnownHosts_noAnswer [OF opens this, of ?newLine hostname remote key]
    show ?thesis using unknown loop NoAnswer
      by (simp add: waveHostKeyCallback_def)
  next
    case (Answer resp)
    with human have r: "replies w = Answer resp # later" by simp
    show ?thesis
    proof (cases "Confirm resp")
      case False
      from writeToKnownHosts_declined [OF opens r False, of ?newLine hostname remote key]
      show ?thesis using unknown loop Answer False
        by (simp add: waveHostKeyCallback_def)
    next
      case True
      show ?thesis
      proof (cases "WriteString env filename (?newLine @ ''\<newline>'')")
        case (Some werr)
        from writeToKnownHosts_notWritten [OF opens r True Some, of hostname remote key]
        have "writeToKnownHosts env filename ?newLine (Some (?verifier filename)) w
                = (Some werr, ?unwritten)" .
        from writeLoop_step [where verifier = ?verifier, OF this, of rest err']
        have step: "writeLoop env ?verifier ?newLine (filename # rest) err' w
              = (if isUserInputCancelError werr then (Cancelled werr, ?unwritten)
                 else writeLoop env ?verifier ?newLine rest werr ?unwritten)" .
        show ?thesis using unknown loop Answer True Some step
          by (simp add: waveHostKeyCallback_def Let_def)
      next
        case wr: None
        note run = writeToKnownHosts_confirmed [OF opens r True wr, of hostname remote key]
        show ?thesis
        proof (cases "Close env filename")
          case (Some cerr)
          with run have "writeToKnownHosts env filename ?newLine (Some (?verifier filename)) w
                = (Some cerr, ?written)" by simp
          from writeLoop_step [where verifier = ?verifier, OF this, of rest err']
          have step: "writeLoop env ?verifier ?newLine (filename # rest) err' w
              = (if isUserInputCancelError cerr then (Cancelled cerr, ?written)
                 else writeLoop env ?verifier ?newLine rest cerr ?written)" .
          show ?thesis using unknown loop Answer True wr Some step
            by (simp add: waveHostKeyCallback_def Let_def)
        next
          case None
          with run show ?thesis using unknown loop Answer True wr
            by (simp add: waveHostKeyCallback_def Let_def split: sum.splits)
        qed
      qed
    qed
  qed
qed

theorem unknown_host_prompt_outcomes_witness:
  "cannotOpen exampleEnv ''/etc/ssh/ssh_known_hosts''
   \<and> waveHostKeyCallback exampleEnv skippingVerifier ''hostB'' ''10.0.0.2:22'' keyK1 confirmingWorld
       = (None, skippingVerifier,
          confirmingWorld\<lparr>files := (files confirmingWorld)
               (''/home/alice/.ssh/known_hosts'' \<mapsto> ''hostB ssh-ed25519 K1\<newline>''),
             replies := [],
             prompts := [(WithTimeout Background 60,
                unknownKeyRequest exampleEnv ''/home/alice/.ssh/known_hosts'' ''hostB'' ''10.0.0.2:22'' keyK1)]\<rparr>)
   \<and> waveHostKeyCallback exampleEnv twoFileVerifier ''hostB'' ''10.0.0.2:22'' keyK1 declineThenConfirm
       = (Some (UserInputCancelError (Errorf ''user selected no'' [])), twoFileVerifier,
          declineThenConfirm\<lparr>files := opened declineThenConfirm ''/home/alice/.ssh/known_hosts'',
             replies := [Answer \<lparr>Type = ''confirm'', Text = [], Confirm = True\<rparr>],
             prompts := prompts declineThenConfirm @
               [(WithTimeout Background 60,
                 unknownKeyRequest exampleEnv ''/home/alice/.ssh/known_hosts'' ''hostB'' ''10.0.0.2:22'' keyK1)]\<rparr>)
   \<and> waveHostKeyCallback exampleEnv singleFileVerifier ''hostB'' ''10.0.0.2:22'' keyK1 unterminatedWorld
       = (Some (KeyError []), singleFileVerifier,
          unterminatedWorld\<lparr>files := (files unterminatedWorld)
               (''/home/alice/.ssh/known_hosts'' \<mapsto> ''hostA ssh-ed25519 K1hostB ssh-ed25519 K1\<newline>''),
             replies := [],
             prompts := [(WithTimeout Background 60,
                unknownKeyRequest exampleEnv ''/home/alice/.ssh/known_hosts'' ''hostB'' ''10.0.0.2:22'' keyK1)]\<rparr>)
   \<and> waveHostKeyCallback fullDiskEnv twoFileVerifier ''hostB'' ''10.0.0.2:22'' keyK1 confirmTwice
       = (None, twoFileVerifier,
          confirmTwice\<lparr>files := [''/home/alice/.ssh/known_hosts'' \<mapsto> [],
                                   ''/home/alice/.ssh/known_hosts2'' \<mapsto> ''hostB ssh-ed25519 K1\<newline>''],
             replies := [],
             prompts := [(WithTimeout Background 60,
                unknownKeyRequest fullDiskEnv ''/home/alice/.ssh/known_hosts'' ''hostB'' ''10.0.0.2:22'' keyK1),
               (WithTimeout Background 60,
                unknownKeyRequest fullDiskEnv ''/home/alice/.ssh/known_hosts2'' ''hostB'' ''10.0.0.2:22'' keyK1)]\<rparr>)"
proof -
  have skip: "cannotOpen exampleEnv ''/etc/ssh/ssh_known_hosts''"
    by (simp add: cannotOpen_def exampleEnv_def isUserInputCancelError_def)
  note confirm = unknown_host_prompt_outcomes [where cb = skippingVerifier and env = exampleEnv
      and hostname = "''hostB''" and remote = "''10.0.0.2:22''" and key = keyK1
      and skipped = "[''/etc/ssh/ssh_known_hosts'']" and filename = "''/home/alice/.ssh/known_hosts''"
      and rest = "[]" and w = confirmingWorld
      and reply = "Answer \<lparr>Type = ''confirm'', Text = [], Confirm = True\<rparr>" and later = "[]"]
  have c: "waveHostKeyCallback exampleEnv skippingVerifier ''hostB'' ''10.0.0.2:22'' keyK1 confirmingWorld
     = (None, skippingVerifier,
        confirmingWorld\<lparr>files := (files confirmingWorld)
               (''/home/alice/.ssh/known_hosts'' \<mapsto> ''hostB ssh-ed25519 K1\<newline>''),
           replies := [],
           prompts := [(WithTimeout Background 60,
              unknownKeyRequest exampleEnv ''/home/alice/.ssh/known_hosts'' ''hostB'' ''10.0.0.2:22'' keyK1)]\<rparr>)"
    using confirm skip
    by (simp add: skippingVerifier_def confirmingWorld_def exampleEnv_def emptyWorld_def appended_def
        exampleKnownhostsNew_def keyK1_def filepathSplitDir_def)
  note decline = unknown_host_prompt_outcomes [where cb = twoFileVerifier and env = exampleEnv
      and hostname = "''hostB''" and remote = "''10.0.0.2:22''" and key = keyK1
      and skipped = "[]" and filename = "''/home/alice/.ssh/known_hosts''"
      and rest = "[''/home/alice/.ssh/known_hosts2'']" and w = declineThenConfirm
      and reply = "Answer \<lparr>Type = ''confirm'', Text = [], Confirm = False\<rparr>"
      and later = "[Answer \<lparr>Type = ''confirm'', Text = [], Confirm = True\<rparr>]"]
  have d: "waveHostKeyCallback exampleEnv twoFileVerifier ''hostB'' ''10.0.0.2:22'' keyK1 declineThenConfirm
       = (Some (UserInputCancelError (Errorf ''user selected no'' [])), twoFileVerifier,
          declineThenConfirm\<lparr>files := opened declineThenConfirm ''/home/alice/.ssh/known_hosts'',
             replies := [Answer \<lparr>Type = ''confirm'', Text = [], Confirm = True\<rparr>],
             prompts := prompts declineThenConfirm @
               [(WithTimeout Background 60,
                 unknownKeyRequest exampleEnv ''/home/alice/.ssh/known_hosts'' ''hostB'' ''10.0.0.2:22'' keyK1)]\<rparr>)"
    using decline
    by (simp add: twoFileVerifier_def declineThenConfirm_def exampleEnv_def emptyWorld_def
        filepathSplitDir_def)
  note glue = unknown_host_prompt_outcomes [where cb = singleFileVerifier and env = exampleEnv
      and hostname = "''hostB''" and remote = "''10.0.0.2:22''" and key = keyK1
      and skipped = "[]" and filename = "''/home/alice/.ssh/known_hosts''"
      and rest = "[]" and w = unterminatedWorld
      and reply = "Answer \<lparr>Type = ''confirm'', Text = [], Confirm = True\<rparr>" and later = "[]"]
  have g: "waveHostKeyCallback exampleEnv singleFileVerifier ''hostB'' ''10.0.0.2:22'' keyK1 unterminatedWorld
       = (Some (KeyError []), singleFileVerifier,
          unterminatedWorld\<lparr>files := (files unterminatedWorld)
               (''/home/alice/.ssh/known_hosts'' \<mapsto> ''hostA ssh-ed25519 K1hostB ssh-ed25519 K1\<newline>''),
             replies := [],
             prompts := [(WithTimeout Background 60,
                unknownKeyRequest exampleEnv ''/home/alice/.ssh/known_hosts'' ''hostB'' ''10.0.0.2:22'' keyK1)]\<rparr>)"
    using glue
    by (simp add: singleFileVerifier_def unterminatedWorld_def exampleEnv_def emptyWorld_def appended_def
        exampleKnownhostsNew_def keyK1_def filepathSplitDir_def)
  note full = unknown_host_prompt_outcomes [where cb = twoFileVerifier and env = fullDiskEnv
      and hostname = "''hostB''" and remote = "''10.0.0.2:22''" and key = keyK1
      and skipped = "[]" and filename = "''/home/alice/.ssh/known_hosts''"
      and rest = "[''/home/alice/.ssh/known_hosts2'']" and w = confirmTwice
      and reply = "Answer \<lparr>Type = ''confirm'', Text = [], Confirm = True\<rparr>"
      and later = "[Answer \<lparr>Type = ''confirm'', Text = [], Confirm = True\<rparr>]"]
  have fields: "MkdirAll fullDiskEnv = (\<lambda>path. None)"
    "OpenFile fullDiskEnv ''/home/alice/.ssh/known_hosts'' = None"
    "OpenFile fullDiskEnv ''/home/alice/.ssh/known_hosts2'' = None"
    "knownhostsLine fullDiskEnv [knownhostsNormalize fullDiskEnv ''hostB''] keyK1 = ''hostB ssh-ed25519 K1''"
    "WriteString fullDiskEnv ''/home/alice/.ssh/known_hosts'' = (\<lambda>text. Some (Errorf ''write: no space left on device'' []))"
    "WriteString fullDiskEnv ''/home/alice/.ssh/known_hosts2'' = (\<lambda>text. None)"
    "Close fullDiskEnv = (\<lambda>path. None)"
    "knownhostsNew fullDiskEnv = exampleKnownhostsNew"
    by (simp_all add: fullDiskEnv_def exampleEnv_def keyK1_def)
  have eq: "writeLoop fullDiskEnv
          (\<lambda>filename. createUnknownKeyVerifier fullDiskEnv filename ''hostB'' ''10.0.0.2:22'' keyK1)
          ''hostB ssh-ed25519 K1''
          [''/home/alice/.ssh/known_hosts'', ''/home/alice/.ssh/known_hosts2'']
          (Errorf ''placeholder, should not be returned'' []) confirmTwice
       = writeLoop fullDiskEnv
          (\<lambda>filename. createUnknownKeyVerifier fullDiskEnv filename ''hostB'' ''10.0.0.2:22'' keyK1)
          ''hostB ssh-ed25519 K1'' [''/home/alice/.ssh/known_hosts2'']
          (Errorf ''write: no space left on device'' [])
          (confirmTwice\<lparr>files := opened confirmTwice ''/home/alice/.ssh/known_hosts'',
             replies := [Answer \<lparr>Type = ''confirm'', Text = [], Confirm = True\<rparr>],
             prompts := [(WithTimeout Background 60,
                unknownKeyRequest fullDiskEnv ''/home/alice/.ssh/known_hosts'' ''hostB'' ''10.0.0.2:22'' keyK1)]\<rparr>)"
    using full fields
    by (simp add: twoFileVerifier_def confirmTwice_def emptyWorld_def Let_def
        isUserInputCancelError_def del: writeLoop.simps)
  have rhs: "writeLoop fullDiskEnv
          (\<lambda>filename. createUnknownKeyVerifier fullDiskEnv filename ''hostB'' ''10.0.0.2:22'' keyK1)
          ''hostB ssh-ed25519 K1'' [''/home/alice/.ssh/known_hosts2'']
          (Errorf ''write: no space left on device'' [])
          (confirmTwice\<lparr>files := opened confirmTwice ''/home/alice/.ssh/known_hosts'',
             replies := [Answer \<lparr>Type = ''confirm'', Text = [], Confirm = True\<rparr>],
             prompts := [(WithTimeout Background 60,
                unknownKeyRequest fullDiskEnv ''/home/alice/.ssh/known_hosts'' ''hostB'' ''10.0.0.2:22'' keyK1)]\<rparr>)
       = (Written ''/home/alice/.ssh/known_hosts2'',
          confirmTwice\<lparr>files := [''/home/alice/.ssh/known_hosts'' \<mapsto> [],
                                   ''/home/alice/.ssh/known_hosts2'' \<mapsto> ''hostB ssh-ed25519 K1\<newline>''],
             replies := [],
             prompts := [(WithTimeout Background 60,
                unknownKeyRequest fullDiskEnv ''/home/alice/.ssh/known_hosts'' ''hostB'' ''10.0.0.2:22'' keyK1),
               (WithTimeout Background 60,
                unknownKeyRequest fullDiskEnv ''/home/alice/.ssh/known_hosts2'' ''hostB'' ''10.0.0.2:22'' keyK1)]\<rparr>)"
    using fields
    by (simp add: confirmTwice_def emptyWorld_def opened_def
        writeToKnownHosts_def createUnknownKeyVerifier_def GetUserInput_def)
  have walk: "writeLoop fullDiskEnv
          (\<lambda>filename. createUnknownKeyVerifier fullDiskEnv filename ''hostB'' ''10.0.0.2:22'' keyK1)
          ''hostB ssh-ed25519 K1''
          [''/home/alice/.ssh/known_hosts'', ''/home/alice/.ssh/known_hosts2'']
          (Errorf ''placeholder, should not be returned'' []) confirmTwice
       = (Written ''/home/alice/.ssh/known_hosts2'',
          confirmTwice\<lparr>files := [''/home/alice/.ssh/known_hosts'' \<mapsto> [],
                                   ''/home/alice/.ssh/known_hosts2'' \<mapsto> ''hostB ssh-ed25519 K1\<newline>''],
             replies := [],
             prompts := [(WithTimeout Background 60,
                unknownKeyRequest fullDiskEnv ''/home/alice/.ssh/known_hosts'' ''hostB'' ''10.0.0.2:22'' keyK1),
               (WithTimeout Background 60,
                unknownKeyRequest fullDiskEnv ''/home/alice/.ssh/known_hosts2'' ''hostB'' ''10.0.0.2:22'' keyK1)]\<rparr>)"
    using eq rhs by (simp only:)
  have f: "waveHostKeyCallback fullDiskEnv twoFileVerifier ''hostB'' ''10.0.0.2:22'' keyK1 confirmTwice
       = (None, twoFileVerifier,
          confirmTwice\<lparr>files := [''/home/alice/.ssh/known_hosts'' \<mapsto> [],
                                   ''/home/alice/.ssh/known_hosts2'' \<mapsto> ''hostB ssh-ed25519 K1\<newline>''],
             replies := [],
             prompts := [(WithTimeout Background 60,
                unknownKeyRequest fullDiskEnv ''/home/alice/.ssh/known_hosts'' ''hostB'' ''10.0.0.2:22'' keyK1),
               (WithTimeout Background 60,
                unknownKeyRequest fullDiskEnv ''/home/alice/.ssh/known_hosts2'' ''hostB'' ''10.0.0.2:22'' keyK1)]\<rparr>)"
    using walk fields
    by (simp add: waveHostKeyCallback_def twoFileVerifier_def exampleKnownhostsNew_def keyK1_def
        del: writeLoop.simps)
  from skip c d g f show ?thesis
    by simp
qed

text \<open>
  C3, as stated, fails: with two readable files, the user declining the first prompt
  and ready to confirm the second, the verification ends with a
  \<^verbatim>\<open>UserInputCancelError\<close> after the one prompt for the first file; the second reply is
  never asked for and the second file is neither opened nor written.
\<close>

theorem rejection_aborts_counterexample:
  "fst (waveHostKeyCallback exampleEnv twoFileVerifier ''hostB'' ''10.0.0.2:22'' keyK1 declineThenConfirm)
     = Some (UserInputCancelError (Errorf ''user selected no'' []))
   \<and> map (QueryText \<circ> snd) (prompts (snd (snd (waveHostKeyCallback exampleEnv twoFileVerifier ''hostB'' ''10.0.0.2:22'' keyK1 declineThenConfirm))))
     = [QueryText (unknownKeyRequest exampleEnv ''/home/alice/.ssh/known_hosts'' ''hostB'' ''10.0.0.2:22'' keyK1)]
   \<and> replies (snd (snd (waveHostKeyCallback exampleEnv twoFileVerifier ''hostB'' ''10.0.0.2:22'' keyK1 declineThenConfirm)))
     = [Answer \<lparr>Type = ''confirm'', Text = [], Confirm = True\<rparr>]
   \<and> files (snd (snd (waveHostKeyCallback exampleEnv twoFileVerifier ''hostB'' ''10.0.0.2:22'' keyK1 declineThenConfirm)))
        ''/home/alice/.ssh/known_hosts2'' = None"
  by (simp add: waveHostKeyCallback_def twoFileVerifier_def declineThenConfirm_def emptyWorld_def
      writeToKnownHosts_def createUnknownKeyVerifier_def GetUserInput_def exampleEnv_def)

text \<open>Lemmas on the public-key closure.\<close>

lemma publicKeyCallback_agent:
  "authSockSigners cb = s # rest \<Longrightarrow>
     publicKeyCallback env cb w = (Inr [s], cb\<lparr>authSockSigners := rest\<rparr>, w)"
  by (simp add: publicKeyCallback_def)

lemma publicKeyCallbacks_agent:
  "n \<le> length (authSockSigners cb) \<Longrightarrow>
     publicKeyCallbacks env n cb w =
       (map (\<lambda>s. Inr [s]) (take n (authSockSigners cb)),
        cb\<lparr>authSockSigners := drop n (authSockSigners cb)\<rparr>, w)"
proof (induction n arbitrary: cb)
  case 0
  then show ?case by simp
next
  case (Suc n)
  then obtain s rest where A: "authSockSigners cb = s # rest"
    by (cases "authSockSigners cb") auto
  with Suc.prems have "n \<le> length (authSockSigners (cb\<lparr>authSockSigners := rest\<rparr>))" by simp
  from Suc.IH [OF this] A show ?case
    by (simp add: publicKeyCallback_agent)
qed

lemma publicKeyCallbacks_add:
  "publicKeyCallbacks env (m + k) cb w =
     (case publicKeyCallbacks env m cb w of
        (r1, cb1, w1) \<Rightarrow>
          (case publicKeyCallbacks env k cb1 w1 of
             (r2, cb2, w2) \<Rightarrow> (r1 @ r2, cb2, w2)))"
  by (induction m arbitrary: cb w) (auto split: prod.splits)

lemma readIdentityFiles_candidates:
  "readIdentityFiles env fs existing queue =
     ((\<lambda>f. if f \<in> set fs \<and> identityKey env f \<noteq> None then identityKey env f else existing f),
      queue @ filter (\<lambda>f. identityKey env f \<noteq> None) fs)"
proof (induction fs arbitrary: existing queue)
  case Nil
  then show ?case by simp
next
  case (Cons f fs)
  show ?case
    by (cases "ExpandHomeDir env f"; cases "ReadFile env (projr (ExpandHomeDir env f))")
       (auto simp: Cons.IH identityKey_def fun_eq_iff split: sum.splits)
qed

lemma candidates_files:
  "map fst (candidates env kw) = filter (\<lambda>f. identityKey env f \<noteq> None) (SshIdentityFile kw)"
proof -
  have "map fst (List.map_filter (\<lambda>f. map_option (Pair f) (g f)) fs) = filter (\<lambda>f. g f \<noteq> None) fs"
    for g :: "string \<Rightarrow> string option" and fs
    by (induction fs) (auto simp: map_filter_simps split: option.splits)
  then show ?thesis by (simp add: candidates_def)
qed

lemma candidates_keys:
  "(f, k) \<in> set (candidates env kw) \<Longrightarrow> f \<in> set (SshIdentityFile kw) \<and> identityKey env f = Some k"
  unfolding candidates_def by (auto simp: List.map_filter_def)

lemma addKeyToAgent_queues [simp]:
  "addKeyToAgent (cb\<lparr>identityFiles := q\<rparr>) = addKeyToAgent cb"
  "addKeyToAgent (cb\<lparr>authSockSigners := a\<rparr>) = addKeyToAgent cb"
  by (simp_all add: addKeyToAgent_def fun_eq_iff)

lemma offerIdentityFile_queues [simp]:
  "offerIdentityFile env (cb\<lparr>identityFiles := q\<rparr>) = offerIdentityFile env cb"
  "offerIdentityFile env (cb\<lparr>authSockSigners := a\<rparr>) = offerIdentityFile env cb"
  by (auto simp: offerIdentityFile_def fun_eq_iff split: sum.splits prod.splits)

lemma offerEachOnce_queues [simp]:
  "offerEachOnce env (cb\<lparr>identityFiles := q\<rparr>) cs w = offerEachOnce env cb cs w"
  "offerEachOnce env (cb\<lparr>authSockSigners := a\<rparr>) cs w = offerEachOnce env cb cs w"
  by (induction cs arbitrary: w; auto)+

lemma publicKeyCallbacks_exhausted:
  "authSockSigners cb = [] \<Longrightarrow> identityFiles cb = [] \<Longrightarrow>
     publicKeyCallbacks env n cb w =
       (replicate n (Inl (ConnectionError (pkDebugInfo cb) (Errorf ''no identity files remaining'' []))),
        cb, w)"
  by (induction n) (auto simp: publicKeyCallback_def)

lemma publicKeyCallbacks_files:
  assumes "authSockSigners cb = []" "identityFiles cb = map fst cs @ q"
    and "\<forall>(f, k) \<in> set cs. existingKeys cb f = Some k"
  shows "publicKeyCallbacks env (length cs) cb w =
           (fst (offerEachOnce env cb cs w), cb\<lparr>identityFiles := q\<rparr>, snd (offerEachOnce env cb cs w))"
  using assms
proof (induction cs arbitrary: cb w)
  case Nil
  then show ?case by simp
next
  case (Cons c cs)
  obtain f k where c: "c = (f, k)" by (cases c)
  obtain res w1 where offer: "offerIdentityFile env cb f k w = (res, w1)"
    by (cases "offerIdentityFile env cb f k w")
  let ?cb1 = "cb\<lparr>identityFiles := map fst cs @ q\<rparr>"
  have step: "publicKeyCallback env cb w = (res, ?cb1, w1)"
    using Cons.prems c offer by (simp add: publicKeyCallback_def)
  have "publicKeyCallbacks env (length cs) ?cb1 w1 =
           (fst (offerEachOnce env ?cb1 cs w1), ?cb1\<lparr>identityFiles := q\<rparr>, snd (offerEachOnce env ?cb1 cs w1))"
    using Cons.prems by (intro Cons.IH) auto
  with step c offer show ?case
    by (simp split: prod.splits)
qed

text \<open>
  C5. The closure that \<^verbatim>\<open>createPublicKeyCallback\<close> returns, invoked \<open>n\<close> times in a
  row, whatever the caller does with the results. The first invocations return the
  signers the agent supplied, one per invocation and in the order the agent gave them,
  and touch nothing else. Only when all of these were returned are the candidates
  taken: the readable identity files, in the order of the configuration, each taken off
  the queue and offered once. Every invocation after the last candidate fails with
  "no identity files remaining". The result is compared with \<open>offerEachOnce\<close>; the
  queues are left with what was not yet taken. (A path that stands twice in the
  configuration stands twice in the queue; these are two candidates.)
\<close>

theorem publicKeyCallback_order:
  "publicKeyCallbacks env n (createPublicKeyCallback env connCtx sshKeywords authSockSignersExt agent debugInfo) w =
     (map (\<lambda>authSockSigner. Inr [authSockSigner]) (take n authSockSignersExt)
        @ fst (offerEachOnce env
                 (createPublicKeyCallback env connCtx sshKeywords authSockSignersExt agent debugInfo)
                 (take (n - length authSockSignersExt) (candidates env sshKeywords)) w)
        @ replicate (n - length authSockSignersExt - length (candidates env sshKeywords))
            (Inl (ConnectionError debugInfo (Errorf ''no identity files remaining'' []))),
      (createPublicKeyCallback env connCtx sshKeywords authSockSignersExt agent debugInfo)
        \<lparr>authSockSigners := drop n authSockSignersExt,
         identityFiles := drop (n - length authSockSignersExt) (map fst (candidates env sshKeywords))\<rparr>,
      snd (offerEachOnce env
             (createPublicKeyCallback env connCtx sshKeywords authSockSignersExt agent debugInfo)
             (take (n - length authSockSignersExt) (candidates env sshKeywords)) w))"
proof -
  let ?cb = "createPublicKeyCallback env connCtx sshKeywords authSockSignersExt agent debugInfo"
  let ?cs = "candidates env sshKeywords"
  have made: "authSockSigners ?cb = authSockSignersExt" "identityFiles ?cb = map fst ?cs"
    "pkDebugInfo ?cb = debugInfo"
    "\<forall>(f, k) \<in> set ?cs. existingKeys ?cb f = Some k"
    using candidates_keys [of _ _ env sshKeywords]
    by (auto simp: createPublicKeyCallback_def readIdentityFiles_candidates candidates_files)
  show ?thesis
  proof (cases "n \<le> length authSockSignersExt")
    case True
    with publicKeyCallbacks_agent [of n ?cb env w] made show ?thesis by simp
  next
    case False
    define m where "m = n - length authSockSignersExt"
    with False have n: "n = length authSockSignersExt + m" by simp
    let ?cb1 = "?cb\<lparr>authSockSigners := []\<rparr>"
    have agents: "publicKeyCallbacks env (length authSockSignersExt) ?cb w =
        (map (\<lambda>s. Inr [s]) authSockSignersExt, ?cb1, w)"
      using publicKeyCallbacks_agent [of "length authSockSignersExt" ?cb env w] made by simp
    have files: "publicKeyCallbacks env m ?cb1 w =
        (fst (offerEachOnce env ?cb (take m ?cs) w)
           @ replicate (m - length ?cs) (Inl (ConnectionError debugInfo (Errorf ''no identity files remaining'' []))),
         ?cb1\<lparr>identityFiles := drop m (map fst ?cs)\<rparr>,
         snd (offerEachOnce env ?cb (take m ?cs) w))"
    proof (cases "m \<le> length ?cs")
      case True
      have "publicKeyCallbacks env (length (take m ?cs)) ?cb1 w =
           (fst (offerEachOnce env ?cb1 (take m ?cs) w), ?cb1\<lparr>identityFiles := drop m (map fst ?cs)\<rparr>,
            snd (offerEachOnce env ?cb1 (take m ?cs) w))"
      proof (rule publicKeyCallbacks_files)
        show "authSockSigners ?cb1 = []" by simp
        show "identityFiles ?cb1 = map fst (take m ?cs) @ drop m (map fst ?cs)"
          using made by (simp add: take_map [symmetric])
        show "\<forall>(f, k) \<in> set (take m ?cs). existingKeys ?cb1 f = Some k"
          using made(4) by (auto dest: in_set_takeD)
      qed
      with True show ?thesis by simp
    next
      case False
      then obtain j where m': "m = length ?cs + j"
        by (metis le_add_diff_inverse nat_le_linear)
      have a: "publicKeyCallbacks env (length ?cs) ?cb1 w =
           (fst (offerEachOnce env ?cb1 ?cs w), ?cb1\<lparr>identityFiles := []\<rparr>,
            snd (offerEachOnce env ?cb1 ?cs w))"
      proof (rule publicKeyCallbacks_files)
        show "authSockSigners ?cb1 = []" by simp
        show "identityFiles ?cb1 = map fst ?cs @ []" using made by simp
        show "\<forall>(f, k) \<in> set ?cs. existingKeys ?cb1 f = Some k" using made(4) by auto
      qed
      have b: "publicKeyCallbacks env j (?cb1\<lparr>identityFiles := []\<rparr>) w' =
          (replicate j (Inl (ConnectionError debugInfo (Errorf ''no identity files remaining'' []))),
           ?cb1\<lparr>identityFiles := []\<rparr>, w')" for w'
        using publicKeyCallbacks_exhausted [of "?cb1\<lparr>identityFiles := []\<rparr>" env j w'] made(3) by simp
      show ?thesis
        unfolding m' publicKeyCallbacks_add a by (simp add: b)
    qed
    show ?thesis
      unfolding n publicKeyCallbacks_add agents
      using files by simp
  qed
qed


theorem publicKeyCallback_order_witness:
  "publicKeyCallbacks exampleEnv 6 agentCallback rightThenWrong =
     ([Inr [Signer ''agent-1''], Inr [Signer ''agent-2''],
       Inr [Signer ''encrypted-1''], Inr [Signer ''dummy''],
       Inl (ConnectionError exampleDebugInfo
              (UserInputCancelError (Errorf ''timed out waiting for user input'' []))),
       Inl (ConnectionError exampleDebugInfo (Errorf ''no identity files remaining'' []))],
      agentCallback\<lparr>authSockSigners := [], identityFiles := []\<rparr>,
      rightThenWrong\<lparr>replies := [],
        prompts := [(WithTimeout (WithCancel Background) 60, passphraseRequest ''id_rsa''),
                    (WithTimeout (WithCancel Background) 60, passphraseRequest ''id_ed25519''),
                    (WithTimeout (WithCancel Background) 60, passphraseRequest ''id_ecdsa'')]\<rparr>)"
proof -
  have cs: "candidates exampleEnv threeKeys =
      [(''id_rsa'', ''encrypted-1''), (''id_ed25519'', ''encrypted-2''), (''id_ecdsa'', ''encrypted-3'')]"
    by (simp add: candidates_def map_filter_simps identityKey_def threeKeys_def exampleEnv_def)
  have offers: "offerEachOnce exampleEnv agentCallback
      [(''id_rsa'', ''encrypted-1''), (''id_ed25519'', ''encrypted-2''), (''id_ecdsa'', ''encrypted-3'')]
      rightThenWrong =
     ([Inr [Signer ''encrypted-1''], Inr [Signer ''dummy''],
       Inl (ConnectionError exampleDebugInfo
              (UserInputCancelError (Errorf ''timed out waiting for user input'' [])))],
      rightThenWrong\<lparr>replies := [],
        prompts := [(WithTimeout (WithCancel Background) 60, passphraseRequest ''id_rsa''),
                    (WithTimeout (WithCancel Background) 60, passphraseRequest ''id_ed25519''),
                    (WithTimeout (WithCancel Background) 60, passphraseRequest ''id_ecdsa'')]\<rparr>)"
    by (simp add: agentCallback_def createPublicKeyCallback_def threeKeys_def exampleKeywords_def
        emptyConnKeywords_def exampleEnv_def rightThenWrong_def emptyWorld_def offerIdentityFile_def
        GetUserInput_def createDummySigner_def addKeyToAgent_def)
  note inst = publicKeyCallback_order [where env = exampleEnv and n = 6
      and connCtx = "WithCancel Background" and sshKeywords = threeKeys
      and authSockSignersExt = "[Signer ''agent-1'', Signer ''agent-2'']"
      and agent = "Some ''/run/agent.sock''" and debugInfo = exampleDebugInfo
      and w = rightThenWrong, folded agentCallback_def, unfolded cs]
  from inst offers show ?thesis
    by simp
qed







text \<open>Lemmas on \<^verbatim>\<open>ConnectToClient\<close>.\<close>

lemma ConnectToClient_too_deep:
  "SshProxyJumpMaxDepth < sint jumpNum \<Longrightarrow>
     ConnectToClient env connCtx opts currentClient jumpNum connFlags w =
       ((None, jumpNum,
         Some (ConnectionError \<lparr>CurrentClient = currentClient, NextOpts = opts, JumpNum = jumpNum\<rparr>
                 (depthExceeded jumpNum))), w)"
  by (simp add: ConnectToClient.simps depthExceeded_def)

lemma ConnectToClient_hop:
  "\<not> SshProxyJumpMaxDepth < sint jumpNum \<Longrightarrow>
     ConnectToClient env connCtx opts currentClient jumpNum connFlags w =
      (let debugInfo = \<lparr>CurrentClient = currentClient, NextOpts = opts, JumpNum = jumpNum\<rparr>;
           w1 = w\<lparr>events := events w @ [EvReloadConfigs (SSHHost opts)]\<rparr>
       in case hopKeywords env opts connFlags of
            Inl err \<Rightarrow> ((None, jumpNum, Some (ConnectionError debugInfo err)), w1)
          | Inr sshKeywords \<Rightarrow>
             (case proxyJumpLoop env connCtx debugInfo (SshProxyJump sshKeywords) jumpNum w1 of
                (Inl (jumpNum', err), w2) \<Rightarrow> ((None, jumpNum', Some err), w2)
              | (Inr (proxyClient, jumpNum'), w2) \<Rightarrow>
                 (let debugInfo' = debugInfo\<lparr>CurrentClient := proxyClient\<rparr>
                  in case createClientConfig env connCtx sshKeywords debugInfo' w2 of
                       (Inl err, w3) \<Rightarrow> ((None, jumpNum, Some (ConnectionError debugInfo' err)), w3)
                     | (Inr clientConfig, w3) \<Rightarrow>
                        (case connectInternal env connCtx
                                (SshHostName sshKeywords @ '':'' @ SshPort sshKeywords)
                                clientConfig proxyClient w3 of
                           (Inl err, w4) \<Rightarrow> ((None, jumpNum, Some (ConnectionError debugInfo' err)), w4)
                         | (Inr client, w4) \<Rightarrow> ((Some client, jumpNum, None), w4)))))"
  by (auto simp: ConnectToClient.simps hopKeywords_def Let_def split: sum.splits prod.splits)



lemma ConnectToClient_success:
  assumes "ConnectToClient env connCtx opts currentClient jumpNum connFlags w
             = ((client, jumpNum', None), w')"
  shows "jumpNum' = jumpNum \<and> \<not> SshProxyJumpMaxDepth < sint jumpNum"
proof (cases "SshProxyJumpMaxDepth < sint jumpNum")
  case True
  from ConnectToClient_too_deep [OF True, of env connCtx opts currentClient connFlags w] assms
  show ?thesis by simp
next
  case False
  from assms False show ?thesis
    by (auto simp: ConnectToClient_hop [OF False] Let_def split: sum.splits prod.splits)
qed

lemma error_hop_both:
  "(\<forall>client jumpNum' err w'.
      ConnectToClient env connCtx opts currentClient jumpNum connFlags w
        = ((client, jumpNum', Some err), w') \<longrightarrow>
      (\<exists>debugInfo cause. err = ConnectionError debugInfo cause \<and> client = None
         \<and> JumpNum debugInfo = jumpNum'
         \<and> isHop env opts jumpNum connFlags (NextOpts debugInfo) (JumpNum debugInfo)))"
  "(\<forall>jumpNum' err w'.
      proxyJumpLoop env connCtx loopInfo names loopNum w = (Inl (jumpNum', err), w') \<longrightarrow>
      (\<exists>debugInfo cause. err = ConnectionError debugInfo cause
         \<and> JumpNum debugInfo = jumpNum'
         \<and> ((NextOpts debugInfo = NextOpts loopInfo \<and> JumpNum debugInfo = JumpNum loopInfo)
            \<or> (\<exists>i < length names. \<exists>proxyOpts.
                  ParseOpts env (names ! i) = Inr proxyOpts
                \<and> isHop env proxyOpts ((jumpInc ^^ Suc i) loopNum) emptyConnKeywords
                      (NextOpts debugInfo) (JumpNum debugInfo)))))"
proof (induction env connCtx opts currentClient jumpNum connFlags w
          and env connCtx loopInfo names loopNum w
       rule: ConnectToClient_proxyJumpLoop.induct)
  case (1 env connCtx opts currentClient jumpNum connFlags w)
  let ?dbg = "\<lparr>CurrentClient = currentClient, NextOpts = opts, JumpNum = jumpNum\<rparr>"
  let ?w1 = "w\<lparr>events := events w @ [EvReloadConfigs (SSHHost opts)]\<rparr>"
  show ?case
  proof (intro allI impI)
    fix client jumpNum' err w'
    assume run: "ConnectToClient env connCtx opts currentClient jumpNum connFlags w
        = ((client, jumpNum', Some err), w')"
    show "\<exists>debugInfo cause. err = ConnectionError debugInfo cause \<and> client = None
         \<and> JumpNum debugInfo = jumpNum'
         \<and> isHop env opts jumpNum connFlags (NextOpts debugInfo) (JumpNum debugInfo)"
    proof (cases "SshProxyJumpMaxDepth < sint jumpNum")
      case True
      from ConnectToClient_too_deep [OF True, of env connCtx opts currentClient connFlags w] run
      have "err = ConnectionError ?dbg (depthExceeded jumpNum)" "client = None" "jumpNum' = jumpNum"
        by simp_all
      then show ?thesis using isHop.self [of env opts jumpNum connFlags]
        by (intro exI [of _ ?dbg] exI [of _ "depthExceeded jumpNum"]) simp
    next
      case False
      note hop = ConnectToClient_hop [OF False, of env connCtx opts currentClient connFlags w]
      show ?thesis
      proof (cases "hopKeywords env opts connFlags")
        case (Inl e)
        with hop run have "err = ConnectionError ?dbg e" "client = None" "jumpNum' = jumpNum"
          by (simp_all add: Let_def)
        then show ?thesis using isHop.self [of env opts jumpNum connFlags]
          by (intro exI [of _ ?dbg] exI [of _ e]) simp
      next
        case (Inr sshKeywords)
        then obtain b where b: "findSshConfigKeywords env (SSHHost opts) = Inr b"
          and comb: "combineSshKeywords (userCurrent env)
            (connFlags\<lparr>SshUser := SSHUser opts, SshHostName := SSHHost opts,
                       SshPort := intToDecimal (SSHPort opts)\<rparr>)
            b (Some (case Connections env (SSHOpts_String opts) of
                 None \<Rightarrow> emptyConnKeywords
               | Some savedKeywords \<Rightarrow> savedKeywords)) = Inr sshKeywords"
          by (auto simp: hopKeywords_def split: sum.splits)
        note IH = "1.IH" [OF refl False refl b comb]
        obtain res w2 where loop: "proxyJumpLoop env connCtx ?dbg (SshProxyJump sshKeywords) jumpNum ?w1 = (res, w2)"
          by (cases "proxyJumpLoop env connCtx ?dbg (SshProxyJump sshKeywords) jumpNum ?w1") auto
        show ?thesis
        proof (cases res)
          case (Inl failed)
          obtain j'' e where failed: "failed = (j'', e)" by (cases failed) auto
          with hop run Inr loop Inl have eq: "err = e" "client = None" "jumpNum' = j''" "w' = w2"
            by (simp_all add: Let_def)
          from IH loop Inl failed obtain debugInfo cause where
            e: "e = ConnectionError debugInfo cause" and j: "JumpNum debugInfo = j''"
            and wh: "(NextOpts debugInfo = NextOpts ?dbg \<and> JumpNum debugInfo = JumpNum ?dbg)
              \<or> (\<exists>i < length (SshProxyJump sshKeywords). \<exists>proxyOpts.
                  ParseOpts env (SshProxyJump sshKeywords ! i) = Inr proxyOpts
                \<and> isHop env proxyOpts ((jumpInc ^^ Suc i) jumpNum) emptyConnKeywords
                      (NextOpts debugInfo) (JumpNum debugInfo))"
            by blast
          from wh have "isHop env opts jumpNum connFlags (NextOpts debugInfo) (JumpNum debugInfo)"
          proof
            assume "NextOpts debugInfo = NextOpts ?dbg \<and> JumpNum debugInfo = JumpNum ?dbg"
            then show ?thesis using isHop.self [of env opts jumpNum connFlags] by simp
          next
            assume "\<exists>i < length (SshProxyJump sshKeywords). \<exists>proxyOpts.
                  ParseOpts env (SshProxyJump sshKeywords ! i) = Inr proxyOpts
                \<and> isHop env proxyOpts ((jumpInc ^^ Suc i) jumpNum) emptyConnKeywords
                      (NextOpts debugInfo) (JumpNum debugInfo)"
            then obtain i proxyOpts where "i < length (SshProxyJump sshKeywords)"
              "ParseOpts env (SshProxyJump sshKeywords ! i) = Inr proxyOpts"
              "isHop env proxyOpts ((jumpInc ^^ Suc i) jumpNum) emptyConnKeywords
                      (NextOpts debugInfo) (JumpNum debugInfo)"
              by blast
            from isHop.proxy [OF False Inr this] show ?thesis .
          qed
          with e j eq show ?thesis by blast
        next
          case (Inr finished)
          obtain proxyClient j'' where finished: "finished = (proxyClient, j'')" by (cases finished) auto
          let ?dbg' = "?dbg\<lparr>CurrentClient := proxyClient\<rparr>"
          from hop run \<open>hopKeywords env opts connFlags = Inr sshKeywords\<close> loop Inr finished
          have "\<exists>cause. err = ConnectionError ?dbg' cause \<and> client = None \<and> jumpNum' = jumpNum"
            by (auto simp: Let_def split: sum.splits prod.splits)
          then obtain cause where "err = ConnectionError ?dbg' cause" "client = None" "jumpNum' = jumpNum"
            by blast
          then show ?thesis using isHop.self [of env opts jumpNum connFlags]
            by (intro exI [of _ ?dbg'] exI [of _ cause]) simp
        qed
      qed
    qed
  qed
next
  case (2 env connCtx debugInfo jumpNum w)
  show ?case by simp
next
  case (3 env connCtx loopInfo proxyName rest loopNum w)
  show ?case
  proof (intro allI impI)
    fix jumpNum' err w'
    assume run: "proxyJumpLoop env connCtx loopInfo (proxyName # rest) loopNum w = (Inl (jumpNum', err), w')"
    show "\<exists>debugInfo cause. err = ConnectionError debugInfo cause
         \<and> JumpNum debugInfo = jumpNum'
         \<and> ((NextOpts debugInfo = NextOpts loopInfo \<and> JumpNum debugInfo = JumpNum loopInfo)
            \<or> (\<exists>i < length (proxyName # rest). \<exists>proxyOpts.
                  ParseOpts env ((proxyName # rest) ! i) = Inr proxyOpts
                \<and> isHop env proxyOpts ((jumpInc ^^ Suc i) loopNum) emptyConnKeywords
                      (NextOpts debugInfo) (JumpNum debugInfo)))"
    proof (cases "ParseOpts env proxyName")
      case (Inl e)
      with run have "err = ConnectionError loopInfo e" "jumpNum' = JumpNum loopInfo" by simp_all
      then show ?thesis by blast
    next
      case (Inr proxyOpts)
      obtain c j'' eo y where call: "ConnectToClient env connCtx proxyOpts (CurrentClient loopInfo)
          (jumpInc loopNum) emptyConnKeywords w = ((c, j'', eo), y)"
        by (cases "ConnectToClient env connCtx proxyOpts (CurrentClient loopInfo)
          (jumpInc loopNum) emptyConnKeywords w") auto
      show ?thesis
      proof (cases eo)
        case (Some e)
        with run Inr call have eq: "err = e" "jumpNum' = j''" by simp_all
        from "3.IH"(1) [OF Inr] call Some obtain debugInfo cause where
          "e = ConnectionError debugInfo cause" "JumpNum debugInfo = j''"
          "isHop env proxyOpts (jumpInc loopNum) emptyConnKeywords (NextOpts debugInfo) (JumpNum debugInfo)"
          by blast
        with eq Inr show ?thesis
          by (intro exI [of _ debugInfo] exI [of _ cause]) (auto intro!: exI [of _ 0])
      next
        case None
        from ConnectToClient_success call None have j'': "j'' = jumpInc loopNum" by blast
        from run Inr call None have rest: "proxyJumpLoop env connCtx (loopInfo\<lparr>CurrentClient := c\<rparr>) rest j'' y
            = (Inl (jumpNum', err), w')" by simp
        from "3.IH"(2) [OF Inr call [symmetric] refl refl None] rest
        obtain debugInfo cause where e: "err = ConnectionError debugInfo cause"
          and j: "JumpNum debugInfo = jumpNum'"
          and wh: "(NextOpts debugInfo = NextOpts loopInfo \<and> JumpNum debugInfo = JumpNum loopInfo)
            \<or> (\<exists>i < length rest. \<exists>proxyOpts.
                  ParseOpts env (rest ! i) = Inr proxyOpts
                \<and> isHop env proxyOpts ((jumpInc ^^ Suc i) j'') emptyConnKeywords
                      (NextOpts debugInfo) (JumpNum debugInfo))"
          by auto
        from wh have "(NextOpts debugInfo = NextOpts loopInfo \<and> JumpNum debugInfo = JumpNum loopInfo)
            \<or> (\<exists>i < length (proxyName # rest). \<exists>proxyOpts.
                  ParseOpts env ((proxyName # rest) ! i) = Inr proxyOpts
                \<and> isHop env proxyOpts ((jumpInc ^^ Suc i) loopNum) emptyConnKeywords
                      (NextOpts debugInfo) (JumpNum debugInfo))"
        proof
          assume "NextOpts debugInfo = NextOpts loopInfo \<and> JumpNum debugInfo = JumpNum loopInfo"
          then show ?thesis by simp
        next
          assume "\<exists>i < length rest. \<exists>proxyOpts.
                  ParseOpts env (rest ! i) = Inr proxyOpts
                \<and> isHop env proxyOpts ((jumpInc ^^ Suc i) j'') emptyConnKeywords
                      (NextOpts debugInfo) (JumpNum debugInfo)"
          then obtain i po where i: "i < length rest" "ParseOpts env (rest ! i) = Inr po"
            "isHop env po ((jumpInc ^^ Suc i) j'') emptyConnKeywords
                      (NextOpts debugInfo) (JumpNum debugInfo)" by blast
          have "(jumpInc ^^ Suc i) (jumpInc loopNum) = (jumpInc ^^ Suc (Suc i)) loopNum"
            by (simp add: funpow_swap1)
          with i j'' have "Suc i < length (proxyName # rest)"
            "ParseOpts env ((proxyName # rest) ! Suc i) = Inr po"
            "isHop env po ((jumpInc ^^ Suc (Suc i)) loopNum) emptyConnKeywords
                      (NextOpts debugInfo) (JumpNum debugInfo)" by simp_all
          then show ?thesis by blast
        qed
        with e j show ?thesis by blast
      qed
    qed
  qed
qed

lemma error_cause_both:
  "(\<forall>client jumpNum' err w'.
      ConnectToClient env connCtx opts currentClient jumpNum connFlags w
        = ((client, jumpNum', Some err), w') \<longrightarrow>
      (\<exists>debugInfo cause. err = ConnectionError debugInfo cause
         \<and> hopFails env connCtx opts currentClient jumpNum connFlags w debugInfo cause))"
  "(\<forall>jumpNum' err w'.
      proxyJumpLoop env connCtx loopInfo names loopNum w = (Inl (jumpNum', err), w') \<longrightarrow>
      (\<exists>debugInfo cause connected proxyName rest proxyClient connectedNum connectedWorld.
           err = ConnectionError debugInfo cause
         \<and> names = connected @ proxyName # rest
         \<and> proxyJumpLoop env connCtx loopInfo connected loopNum w
              = (Inr (proxyClient, connectedNum), connectedWorld)
         \<and> ((ParseOpts env proxyName = Inl cause
               \<and> debugInfo = loopInfo\<lparr>CurrentClient := proxyClient\<rparr>)
            \<or> (\<exists>proxyOpts. ParseOpts env proxyName = Inr proxyOpts
                 \<and> hopFails env connCtx proxyOpts proxyClient (jumpInc connectedNum)
                      emptyConnKeywords connectedWorld debugInfo cause))))"
proof (induction env connCtx opts currentClient jumpNum connFlags w
          and env connCtx loopInfo names loopNum w
       rule: ConnectToClient_proxyJumpLoop.induct)
  case (1 env connCtx opts currentClient jumpNum connFlags w)
  let ?dbg = "\<lparr>CurrentClient = currentClient, NextOpts = opts, JumpNum = jumpNum\<rparr>"
  let ?w1 = "w\<lparr>events := events w @ [EvReloadConfigs (SSHHost opts)]\<rparr>"
  show ?case
  proof (intro allI impI)
    fix client jumpNum' err w'
    assume run: "ConnectToClient env connCtx opts currentClient jumpNum connFlags w
        = ((client, jumpNum', Some err), w')"
    show "\<exists>debugInfo cause. err = ConnectionError debugInfo cause
         \<and> hopFails env connCtx opts currentClient jumpNum connFlags w debugInfo cause"
    proof (cases "SshProxyJumpMaxDepth < sint jumpNum")
      case True
      from ConnectToClient_too_deep [OF True, of env connCtx opts currentClient connFlags w] run
      have "err = ConnectionError ?dbg (depthExceeded jumpNum)" by simp
      with hopFails.tooDeep [OF True, of env connCtx opts currentClient connFlags w]
      show ?thesis by blast
    next
      case False
      note hop = ConnectToClient_hop [OF False, of env connCtx opts currentClient connFlags w]
      show ?thesis
      proof (cases "hopKeywords env opts connFlags")
        case (Inl e)
        with hop run have "err = ConnectionError ?dbg e" by (simp add: Let_def)
        with hopFails.unresolved [OF False Inl, of connCtx currentClient w]
        show ?thesis by blast
      next
        case kw: (Inr sshKeywords)
        then obtain b where b: "findSshConfigKeywords env (SSHHost opts) = Inr b"
          and comb: "combineSshKeywords (userCurrent env)
            (connFlags\<lparr>SshUser := SSHUser opts, SshHostName := SSHHost opts,
                       SshPort := intToDecimal (SSHPort opts)\<rparr>)
            b (Some (case Connections env (SSHOpts_String opts) of
                 None \<Rightarrow> emptyConnKeywords
               | Some savedKeywords \<Rightarrow> savedKeywords)) = Inr sshKeywords"
          by (auto simp: hopKeywords_def split: sum.splits)
        note IH = "1.IH" [OF refl False refl b comb]
        obtain res w2 where loop: "proxyJumpLoop env connCtx ?dbg (SshProxyJump sshKeywords) jumpNum ?w1 = (res, w2)"
          by (cases "proxyJumpLoop env connCtx ?dbg (SshProxyJump sshKeywords) jumpNum ?w1") auto
        show ?thesis
        proof (cases res)
          case (Inl failed)
          obtain j'' e where failed: "failed = (j'', e)" by (cases failed) auto
          with hop run kw loop Inl have eq: "err = e"
            by (simp add: Let_def)
          from loop Inl failed have lf:
            "proxyJumpLoop env connCtx ?dbg (SshProxyJump sshKeywords) jumpNum ?w1 = (Inl (j'', e), w2)"
            by simp
          from IH [rule_format, OF lf] obtain debugInfo cause connected proxyName rest proxyClient
              connectedNum connectedWorld where
            e: "e = ConnectionError debugInfo cause"
            and split: "SshProxyJump sshKeywords = connected @ proxyName # rest"
            and before: "proxyJumpLoop env connCtx ?dbg connected jumpNum ?w1
                           = (Inr (proxyClient, connectedNum), connectedWorld)"
            and wh: "(ParseOpts env proxyName = Inl cause
                       \<and> debugInfo = ?dbg\<lparr>CurrentClient := proxyClient\<rparr>)
                   \<or> (\<exists>proxyOpts. ParseOpts env proxyName = Inr proxyOpts
                        \<and> hopFails env connCtx proxyOpts proxyClient (jumpInc connectedNum)
                             emptyConnKeywords connectedWorld debugInfo cause)"
            by blast
          from wh have "hopFails env connCtx opts currentClient jumpNum connFlags w debugInfo cause"
          proof
            assume p: "ParseOpts env proxyName = Inl cause
                       \<and> debugInfo = ?dbg\<lparr>CurrentClient := proxyClient\<rparr>"
            then have "debugInfo = \<lparr>CurrentClient = proxyClient, NextOpts = opts, JumpNum = jumpNum\<rparr>"
              by simp
            with hopFails.unparsed [OF False kw split before, of cause] p show ?thesis by simp
          next
            assume "\<exists>proxyOpts. ParseOpts env proxyName = Inr proxyOpts
                        \<and> hopFails env connCtx proxyOpts proxyClient (jumpInc connectedNum)
                             emptyConnKeywords connectedWorld debugInfo cause"
            then obtain proxyOpts where "ParseOpts env proxyName = Inr proxyOpts"
              "hopFails env connCtx proxyOpts proxyClient (jumpInc connectedNum)
                             emptyConnKeywords connectedWorld debugInfo cause" by blast
            from hopFails.throughProxy [OF False kw split before this] show ?thesis .
          qed
          with e eq show ?thesis by blast
        next
          case (Inr finished)
          obtain proxyClient j'' where finished: "finished = (proxyClient, j'')" by (cases finished) auto
          let ?dbg' = "\<lparr>CurrentClient = proxyClient, NextOpts = opts, JumpNum = jumpNum\<rparr>"
          from loop Inr finished have done_loop:
            "proxyJumpLoop env connCtx ?dbg (SshProxyJump sshKeywords) jumpNum ?w1
               = (Inr (proxyClient, j''), w2)" by simp
          obtain cfg w3 where cfg: "createClientConfig env connCtx sshKeywords ?dbg' w2 = (cfg, w3)"
            by (cases "createClientConfig env connCtx sshKeywords ?dbg' w2") auto
          show ?thesis
          proof (cases cfg)
            case (Inl e)
            with cfg have failed: "createClientConfig env connCtx sshKeywords ?dbg' w2 = (Inl e, w3)"
              by simp
            with hop run kw done_loop
            have "err = ConnectionError ?dbg' e" by (simp add: Let_def)
            with hopFails.unconfigured [OF False kw done_loop failed]
            show ?thesis by blast
          next
            case (Inr clientConfig)
            with cfg have cfg': "createClientConfig env connCtx sshKeywords ?dbg' w2 = (Inr clientConfig, w3)"
              by simp
            obtain conn w4 where conn: "connectInternal env connCtx
                (SshHostName sshKeywords @ '':'' @ SshPort sshKeywords) clientConfig proxyClient w3 = (conn, w4)"
              by (cases "connectInternal env connCtx
                (SshHostName sshKeywords @ '':'' @ SshPort sshKeywords) clientConfig proxyClient w3") auto
            show ?thesis
            proof (cases conn)
              case (Inl e)
              with conn have failed: "connectInternal env connCtx
                (SshHostName sshKeywords @ '':'' @ SshPort sshKeywords) clientConfig proxyClient w3 = (Inl e, w4)"
                by simp
              with hop run kw done_loop cfg'
              have "err = ConnectionError ?dbg' e" by (simp add: Let_def)
              with hopFails.unconnected [OF False kw done_loop cfg' failed]
              show ?thesis by blast
            next
              case (Inr c)
              with hop run kw done_loop cfg' conn
              show ?thesis by (simp add: Let_def)
            qed
          qed
        qed
      qed
    qed
  qed
next
  case (2 env connCtx debugInfo jumpNum w)
  show ?case by simp
next
  case (3 env connCtx loopInfo proxyName rest loopNum w)
  show ?case
  proof (intro allI impI)
    fix jumpNum' err w'
    assume run: "proxyJumpLoop env connCtx loopInfo (proxyName # rest) loopNum w = (Inl (jumpNum', err), w')"
    have start: "proxyJumpLoop env connCtx loopInfo [] loopNum w = (Inr (CurrentClient loopInfo, loopNum), w)"
      by simp
    show "\<exists>debugInfo cause connected proxyName' rest' proxyClient connectedNum connectedWorld.
           err = ConnectionError debugInfo cause
         \<and> proxyName # rest = connected @ proxyName' # rest'
         \<and> proxyJumpLoop env connCtx loopInfo connected loopNum w
              = (Inr (proxyClient, connectedNum), connectedWorld)
         \<and> ((ParseOpts env proxyName' = Inl cause
               \<and> debugInfo = loopInfo\<lparr>CurrentClient := proxyClient\<rparr>)
            \<or> (\<exists>proxyOpts. ParseOpts env proxyName' = Inr proxyOpts
                 \<and> hopFails env connCtx proxyOpts proxyClient (jumpInc connectedNum)
                      emptyConnKeywords connectedWorld debugInfo cause))"
    proof (cases "ParseOpts env proxyName")
      case (Inl e)
      with run have "err = ConnectionError loopInfo e" by simp
      with Inl start show ?thesis
        by (intro exI [of _ loopInfo] exI [of _ e] exI [of _ "[]"] exI [of _ proxyName]
            exI [of _ rest] exI [of _ "CurrentClient loopInfo"] exI [of _ loopNum] exI [of _ w]) simp
    next
      case (Inr proxyOpts)
      obtain c j'' eo y where call: "ConnectToClient env connCtx proxyOpts (CurrentClient loopInfo)
          (jumpInc loopNum) emptyConnKeywords w = ((c, j'', eo), y)"
        by (cases "ConnectToClient env connCtx proxyOpts (CurrentClient loopInfo)
          (jumpInc loopNum) emptyConnKeywords w") auto
      show ?thesis
      proof (cases eo)
        case (Some e)
        with run Inr call have eq: "err = e" by simp
        from "3.IH"(1) [OF Inr] call Some obtain debugInfo cause where
          "e = ConnectionError debugInfo cause"
          "hopFails env connCtx proxyOpts (CurrentClient loopInfo) (jumpInc loopNum)
             emptyConnKeywords w debugInfo cause"
          by blast
        with eq Inr start show ?thesis
          by (intro exI [of _ debugInfo] exI [of _ cause] exI [of _ "[]"] exI [of _ proxyName]
            exI [of _ rest] exI [of _ "CurrentClient loopInfo"] exI [of _ loopNum] exI [of _ w]) simp
      next
        case None
        from run Inr call None have rest: "proxyJumpLoop env connCtx (loopInfo\<lparr>CurrentClient := c\<rparr>) rest j'' y
            = (Inl (jumpNum', err), w')" by simp
        from "3.IH"(2) [OF Inr call [symmetric] refl refl None, rule_format, OF rest]
        obtain debugInfo cause connected proxyName' rest' proxyClient connectedNum connectedWorld where
          e: "err = ConnectionError debugInfo cause"
          and split: "rest = connected @ proxyName' # rest'"
          and before: "proxyJumpLoop env connCtx (loopInfo\<lparr>CurrentClient := c\<rparr>) connected j'' y
                         = (Inr (proxyClient, connectedNum), connectedWorld)"
          and wh: "(ParseOpts env proxyName' = Inl cause
                     \<and> debugInfo = loopInfo\<lparr>CurrentClient := c\<rparr>\<lparr>CurrentClient := proxyClient\<rparr>)
                 \<or> (\<exists>proxyOpts. ParseOpts env proxyName' = Inr proxyOpts
                      \<and> hopFails env connCtx proxyOpts proxyClient (jumpInc connectedNum)
                           emptyConnKeywords connectedWorld debugInfo cause)"
          by blast
        have before': "proxyJumpLoop env connCtx loopInfo (proxyName # connected) loopNum w
                         = (Inr (proxyClient, connectedNum), connectedWorld)"
          using Inr call None before by simp
        from split have split': "proxyName # rest = (proxyName # connected) @ proxyName' # rest'" by simp
        from wh have wh': "(ParseOpts env proxyName' = Inl cause
                     \<and> debugInfo = loopInfo\<lparr>CurrentClient := proxyClient\<rparr>)
                 \<or> (\<exists>proxyOpts. ParseOpts env proxyName' = Inr proxyOpts
                      \<and> hopFails env connCtx proxyOpts proxyClient (jumpInc connectedNum)
                           emptyConnKeywords connectedWorld debugInfo cause)"
          by simp
        from e split' before' wh' show ?thesis by blast
      qed
    qed
  qed
qed

lemma natToDecimal_0: "natToDecimal 0 = ''0''"
  by (simp add: natToDecimal.simps)



lemma proxyJumpLoop_count:
  assumes "proxyJumpLoop env connCtx debugInfo names jumpNum w = (Inr (client, jumpNum'), w')"
  shows "sint jumpNum' = sint jumpNum + int (length names)"
  using assms
proof (induction names arbitrary: debugInfo jumpNum w)
  case Nil
  then show ?case by simp
next
  case (Cons proxyName rest)
  from Cons.prems obtain proxyOpts where po: "ParseOpts env proxyName = Inr proxyOpts"
    by (auto split: sum.splits)
  obtain c j eo y where call: "ConnectToClient env connCtx proxyOpts (CurrentClient debugInfo)
          (jumpInc jumpNum) emptyConnKeywords w = ((c, j, eo), y)"
    by (cases "ConnectToClient env connCtx proxyOpts (CurrentClient debugInfo)
          (jumpInc jumpNum) emptyConnKeywords w") auto
  from Cons.prems po call have eo: "eo = None" by (cases eo) auto
  from ConnectToClient_success call eo have j: "j = jumpInc jumpNum"
    and ok: "\<not> SshProxyJumpMaxDepth < sint (jumpInc jumpNum)" by blast+
  from Cons.prems po call eo have
    "proxyJumpLoop env connCtx (debugInfo\<lparr>CurrentClient := c\<rparr>) rest j y = (Inr (client, jumpNum'), w')"
    by simp
  from Cons.IH [OF this] have "sint jumpNum' = sint j + int (length rest)" .
  moreover from ok have "sint (jumpInc jumpNum) = sint jumpNum + 1"
    by (auto simp: sint_jumpInc SshProxyJumpMaxDepth_def split: if_splits)
  ultimately show ?case using j by simp
qed

lemma jumpInc_0: "jumpInc 0 = 1"
  by (simp add: jumpInc_def MaxInt32_def word_sless_alt)

lemmas run_defs =
  ConnectToClient.simps combineSshKeywords_def createClientConfig_def connectInternal_def
  createHostKeyCallback_def loadKnownHosts.simps SshProxyJumpMaxDepth_def intToDecimal_def
  natToDecimal_0 SSHOpts_String_def jumpInc_0 createPublicKeyCallback_def authMethodsFor_def
  Let_def



text \<open>
  C10. The jump counter never wraps around \<^verbatim>\<open>int32\<close>: the guarded increment adds
  one below \<^verbatim>\<open>math.MaxInt32\<close> and stays at \<^verbatim>\<open>math.MaxInt32\<close> there, so the signed
  value never decreases; a counter at or above the maximal depth, the saturated one
  included, trips the depth guard of the recursive call after the increment; and over a
  loop that completes, the counter has grown by exactly one per proxy-jump entry.
\<close>

theorem jump_counter_saturates:
  "sint (jumpInc jumpNum) = (if sint jumpNum < 2147483647 then sint jumpNum + 1 else 2147483647)
   \<and> sint jumpNum \<le> sint (jumpInc jumpNum)
   \<and> jumpInc MaxInt32 = MaxInt32
   \<and> (SshProxyJumpMaxDepth \<le> sint jumpNum \<longrightarrow>
        ConnectToClient env connCtx opts currentClient (jumpInc jumpNum) connFlags w =
          ((None, jumpInc jumpNum,
            Some (ConnectionError
                    \<lparr>CurrentClient = currentClient, NextOpts = opts, JumpNum = jumpInc jumpNum\<rparr>
                    (depthExceeded (jumpInc jumpNum)))), w))
   \<and> (\<forall>client jumpNum' w'.
        proxyJumpLoop env connCtx debugInfo names jumpNum w = (Inr (client, jumpNum'), w') \<longrightarrow>
        sint jumpNum' = sint jumpNum + int (length names))"
proof (intro conjI impI allI)
  have top: "sint jumpNum \<le> 2147483647" using sint_lt [of jumpNum] by simp
  then show "sint (jumpInc jumpNum) = (if sint jumpNum < 2147483647 then sint jumpNum + 1 else 2147483647)"
    by (simp add: sint_jumpInc)
  show "sint jumpNum \<le> sint (jumpInc jumpNum)" by (simp add: sint_jumpInc)
  show "jumpInc MaxInt32 = MaxInt32" by (simp add: jumpInc_def)
next
  assume "SshProxyJumpMaxDepth \<le> sint jumpNum"
  then have "SshProxyJumpMaxDepth < sint (jumpInc jumpNum)"
    by (simp add: sint_jumpInc SshProxyJumpMaxDepth_def)
  then show "ConnectToClient env connCtx opts currentClient (jumpInc jumpNum) connFlags w =
          ((None, jumpInc jumpNum,
            Some (ConnectionError
                    \<lparr>CurrentClient = currentClient, NextOpts = opts, JumpNum = jumpInc jumpNum\<rparr>
                    (depthExceeded (jumpInc jumpNum)))), w)"
    by (rule ConnectToClient_too_deep)
next
  fix client jumpNum' w'
  assume "proxyJumpLoop env connCtx debugInfo names jumpNum w = (Inr (client, jumpNum'), w')"
  then show "sint jumpNum' = sint jumpNum + int (length names)"
    by (rule proxyJumpLoop_count)
qed

theorem jump_counter_saturates_witness:
  "fst (proxyJumpLoop exampleEnv Background \<lparr>CurrentClient = None, NextOpts = targetOpts, JumpNum = 0\<rparr>
          [''jump''] 0 emptyWorld)
     = Inr (Some (Client ''jump:22'' None), 1)
   \<and> sint (1 :: int32) = sint (0 :: int32) + int (length [''jump''])
   \<and> ConnectToClient exampleEnv Background targetOpts None (jumpInc MaxInt32) emptyConnKeywords emptyWorld =
        ((None, MaxInt32,
          Some (ConnectionError
                  \<lparr>CurrentClient = None, NextOpts = targetOpts, JumpNum = MaxInt32\<rparr>
                  (depthExceeded MaxInt32))), emptyWorld)"
proof -
  let ?loop = "proxyJumpLoop exampleEnv Background
      \<lparr>CurrentClient = None, NextOpts = targetOpts, JumpNum = 0\<rparr> [''jump''] 0 emptyWorld"
  have run: "fst ?loop = Inr (Some (Client ''jump:22'' None), 1)"
    by (simp add: run_defs example_defs targetOpts_def jumpOpts_def)
  then have full: "?loop = (Inr (Some (Client ''jump:22'' None), 1), snd ?loop)"
    by (metis prod.collapse)
  note counted = jump_counter_saturates [where jumpNum = 0 and env = exampleEnv and connCtx = Background
      and debugInfo = "\<lparr>CurrentClient = None, NextOpts = targetOpts, JumpNum = 0\<rparr>"
      and names = "[''jump'']" and w = emptyWorld]
  from counted full have count: "sint (1 :: int32) = sint (0 :: int32) + int (length [''jump''])"
    by blast
  note top = jump_counter_saturates [where jumpNum = MaxInt32 and env = exampleEnv
      and connCtx = Background and opts = targetOpts and currentClient = None
      and connFlags = emptyConnKeywords and w = emptyWorld
      and debugInfo = "\<lparr>CurrentClient = None, NextOpts = targetOpts, JumpNum = 0\<rparr>"
      and names = "[]"]
  have pre: "SshProxyJumpMaxDepth \<le> sint MaxInt32"
    by (simp add: SshProxyJumpMaxDepth_def MaxInt32_def)
  from top have same: "jumpInc MaxInt32 = MaxInt32" by blast
  from top pre have "ConnectToClient exampleEnv Background targetOpts None (jumpInc MaxInt32)
        emptyConnKeywords emptyWorld =
        ((None, jumpInc MaxInt32,
          Some (ConnectionError
                  \<lparr>CurrentClient = None, NextOpts = targetOpts, JumpNum = jumpInc MaxInt32\<rparr>
                  (depthExceeded (jumpInc MaxInt32)))), emptyWorld)"
    by blast
  then have "ConnectToClient exampleEnv Background targetOpts None (jumpInc MaxInt32) emptyConnKeywords emptyWorld =
        ((None, MaxInt32,
          Some (ConnectionError
                  \<lparr>CurrentClient = None, NextOpts = targetOpts, JumpNum = MaxInt32\<rparr>
                  (depthExceeded MaxInt32))), emptyWorld)"
    by (simp only: same)
  with run count show ?thesis by blast
qed

text \<open>
  C8. Every error \<^verbatim>\<open>ConnectToClient\<close> returns is a \<^verbatim>\<open>ConnectionError\<close> that
  wraps, once, the error of the step that failed, together with the debug context of the
  hop where it failed, and no client is returned. The hop is the call itself or one it
  reaches through proxy-jump entries; the context holds that hop's options, its jump
  number (which is also the jump number returned) and its current transport, the client
  that hop had connected through when the step failed; the cause is the error that step
  returned, unchanged. Failures inside recursive calls arrive as they were made: a
  \<^verbatim>\<open>UserInputCancelError\<close> raised during the handshake of a jump host, or during the
  handshake with the target through a connected jump host, is the cause the top-level
  error carries.
\<close>

theorem ConnectToClient_error_context:
  assumes "ConnectToClient env connCtx opts currentClient jumpNum connFlags w
             = ((client, jumpNum', Some err), w')"
  shows "client = None
       \<and> (\<exists>debugInfo cause.
             err = ConnectionError debugInfo cause
           \<and> JumpNum debugInfo = jumpNum'
           \<and> isHop env opts jumpNum connFlags (NextOpts debugInfo) (JumpNum debugInfo)
           \<and> hopFails env connCtx opts currentClient jumpNum connFlags w debugInfo cause)"
proof -
  from error_hop_both(1) [rule_format, OF assms] obtain debugInfo cause where
    a: "err = ConnectionError debugInfo cause" "client = None" "JumpNum debugInfo = jumpNum'"
       "isHop env opts jumpNum connFlags (NextOpts debugInfo) (JumpNum debugInfo)"
    by blast
  from error_cause_both(1) [rule_format, OF assms] obtain debugInfo' cause' where
    b: "err = ConnectionError debugInfo' cause'"
       "hopFails env connCtx opts currentClient jumpNum connFlags w debugInfo' cause'"
    by blast
  from a b have "debugInfo' = debugInfo" "cause' = cause" by simp_all
  with a b show ?thesis by blast
qed

theorem ConnectToClient_error_context_witness:
  "fst (ConnectToClient cancellingEnv Background targetOpts None 0 emptyConnKeywords emptyWorld)
     = (None, 1,
        Some (ConnectionError \<lparr>CurrentClient = None, NextOpts = jumpOpts, JumpNum = 1\<rparr>
                (UserInputCancelError (Errorf ''user selected no'' []))))
   \<and> isHop cancellingEnv targetOpts 0 emptyConnKeywords jumpOpts 1
   \<and> hopFails cancellingEnv Background targetOpts None 0 emptyConnKeywords emptyWorld
        \<lparr>CurrentClient = None, NextOpts = jumpOpts, JumpNum = 1\<rparr>
        (UserInputCancelError (Errorf ''user selected no'' []))
   \<and> fst (ConnectToClient lateCancellingEnv Background targetOpts None 0 emptyConnKeywords emptyWorld)
     = (None, 0,
        Some (ConnectionError
                \<lparr>CurrentClient = Some (Client ''jump:22'' None), NextOpts = targetOpts, JumpNum = 0\<rparr>
                (UserInputCancelError (Errorf ''user selected no'' []))))
   \<and> hopFails lateCancellingEnv Background targetOpts None 0 emptyConnKeywords emptyWorld
        \<lparr>CurrentClient = Some (Client ''jump:22'' None), NextOpts = targetOpts, JumpNum = 0\<rparr>
        (UserInputCancelError (Errorf ''user selected no'' []))"
proof -
  let ?early = "ConnectToClient cancellingEnv Background targetOpts None 0 emptyConnKeywords emptyWorld"
  let ?late = "ConnectToClient lateCancellingEnv Background targetOpts None 0 emptyConnKeywords emptyWorld"
  have early: "fst ?early = (None, 1,
        Some (ConnectionError \<lparr>CurrentClient = None, NextOpts = jumpOpts, JumpNum = 1\<rparr>
                (UserInputCancelError (Errorf ''user selected no'' []))))"
    by (simp add: run_defs example_defs cancellingEnv_def targetOpts_def jumpOpts_def)
  then have "?early = ((None, 1,
        Some (ConnectionError \<lparr>CurrentClient = None, NextOpts = jumpOpts, JumpNum = 1\<rparr>
                (UserInputCancelError (Errorf ''user selected no'' [])))), snd ?early)"
    by (metis prod.collapse)
  from ConnectToClient_error_context [OF this]
  have e: "isHop cancellingEnv targetOpts 0 emptyConnKeywords jumpOpts 1
      \<and> hopFails cancellingEnv Background targetOpts None 0 emptyConnKeywords emptyWorld
        \<lparr>CurrentClient = None, NextOpts = jumpOpts, JumpNum = 1\<rparr>
        (UserInputCancelError (Errorf ''user selected no'' []))"
    by auto
  have late: "fst ?late = (None, 0,
        Some (ConnectionError
                \<lparr>CurrentClient = Some (Client ''jump:22'' None), NextOpts = targetOpts, JumpNum = 0\<rparr>
                (UserInputCancelError (Errorf ''user selected no'' []))))"
    by (simp add: run_defs example_defs lateCancellingEnv_def targetOpts_def jumpOpts_def)
  then have "?late = ((None, 0,
        Some (ConnectionError
                \<lparr>CurrentClient = Some (Client ''jump:22'' None), NextOpts = targetOpts, JumpNum = 0\<rparr>
                (UserInputCancelError (Errorf ''user selected no'' [])))), snd ?late)"
    by (metis prod.collapse)
  from ConnectToClient_error_context [OF this]
  have l: "hopFails lateCancellingEnv Background targetOpts None 0 emptyConnKeywords emptyWorld
        \<lparr>CurrentClient = Some (Client ''jump:22'' None), NextOpts = targetOpts, JumpNum = 0\<rparr>
        (UserInputCancelError (Errorf ''user selected no'' []))"
    by auto
  from early e late l show ?thesis by blast
qed

text \<open>
  C7. The passphrase, password and keyboard-interactive prompts are issued under
  \<^verbatim>\<open>context.WithTimeout(connCtx, 60*time.Second)\<close>; the prompts of the host-key
  verifier are issued under \<^verbatim>\<open>context.WithTimeout(context.Background(), 60*time.Second)\<close>.
  In the client configuration built for a cancellable connection context, the
  passphrase prompt (like the password and keyboard-interactive prompts) carries a
  context derived from the connection context, and the unknown-host prompt of the very
  same configuration carries one that is bounded by the timeout but not derived from it.
\<close>

theorem host_key_prompt_ignores_connection_context:
  "case createClientConfig exampleEnv (WithCancel Background) threeKeys exampleDebugInfo wrongThenSilent of
     (Inl err, w1) \<Rightarrow> False
   | (Inr clientConfig, w1) \<Rightarrow>
       (case Auth clientConfig of
          [RetryablePublicKeys pkcb maxTries] \<Rightarrow>
              map fst (prompts (snd (snd (publicKeyCallback exampleEnv pkcb w1))))
                = [WithTimeout (WithCancel Background) 60]
            \<and> map fst (prompts (snd (createInteractivePasswordCallbackPrompt (WithCancel Background)
                                        ''alice@hostB:22'' exampleDebugInfo w1)))
                = [WithTimeout (WithCancel Background) 60]
            \<and> map fst (prompts (snd (promptChallengeQuestion (WithCancel Background)
                                        ''Verification code:'' True ''alice@hostB:22'' w1)))
                = [WithTimeout (WithCancel Background) 60]
            \<and> derivedFrom (WithCancel Background) (WithTimeout (WithCancel Background) 60)
            \<and> map fst (prompts (snd (snd (waveHostKeyCallback exampleEnv (HostKeyCallback clientConfig)
                                              ''hostB'' ''10.0.0.2:22'' keyK1 w1))))
                = [WithTimeout Background 60]
            \<and> hasTimeout (WithTimeout Background 60)
            \<and> \<not> derivedFrom (WithCancel Background) (WithTimeout Background 60)
        | _ \<Rightarrow> False)"
  by (simp add: createClientConfig_def createHostKeyCallback_def loadKnownHosts.simps
      createPublicKeyCallback_def authMethodsFor_def publicKeyCallback_def offerIdentityFile_def
      createInteractivePasswordCallbackPrompt_def promptChallengeQuestion_def
      waveHostKeyCallback_def writeToKnownHosts_def createUnknownKeyVerifier_def GetUserInput_def
      threeKeys_def exampleKeywords_def emptyConnKeywords_def exampleEnv_def exampleKnownhostsNew_def
      wrongThenSilent_def emptyWorld_def keyK1_def Let_def)

end
